theory Spec2Isabelle
  imports Complex_Main
begin

section \<open>Fields, meshes and coordinates\<close>

text \<open>
  The components work on three-dimensional scalar fields over a structured mesh.
  \<open>BoutReal\<close> is modelled by the real numbers, a cell index by a triple of integers
  \<open>(x, y, z)\<close>, and a field by the mesh it lives on together with its cell values.
  Fields are read only at indices of the local mesh (guard cells included), so the cell
  values are a total function of the index.
\<close>

type_synonym BoutReal = real

type_synonym Ind3D = "int \<times> int \<times> int"

type_synonym Ind2D = "int \<times> int"

record Field3D =
  fmesh :: nat
  fdata :: "Ind3D \<Rightarrow> BoutReal"

type_synonym Field2D = "Ind2D \<Rightarrow> BoutReal"

text \<open>
  The ways in which a call fails. The first two are the contract violations that the
  spec names. The third is a read of a field that has no data: a checked build of the
  framework throws there and an unchecked build reads through a null pointer; both
  end the call and are one failure in the model.
\<close>

datatype error = IncompatibleFieldsError | MissingStateFieldError | EmptyDataError

text \<open>
  The part of the mesh that \<open>Div_par_fvv\<close> reads: the index ranges of the interior
  cells and the classification of each x index (first or last point along the field
  line, periodic in y).
\<close>

record Mesh =
  xstart :: int
  xend :: int
  ystart :: int
  yend :: int
  LocalNz :: int
  firstY :: "int \<Rightarrow> bool"
  lastY :: "int \<Rightarrow> bool"
  periodicY :: "int \<Rightarrow> bool"

text \<open>
  The coordinate system: the Jacobian \<open>J\<close>, the metric coefficient \<open>g_22\<close> and the
  grid spacings, all two-dimensional fields, and the parallel transform to and from
  field-aligned coordinates. The transforms belong to the mesh engine; they are
  parameters of the model, applied to a field and a region name.
\<close>

record Coordinates =
  J :: Field2D
  g_22 :: Field2D
  dy :: Field2D
  dz :: Field2D
  toFieldAligned :: "Field3D \<Rightarrow> string \<Rightarrow> Field3D"
  fromFieldAligned :: "Field3D \<Rightarrow> string \<Rightarrow> Field3D"

text \<open>
  Modelled from the spec: \<open>areFieldsCompatible\<close> and \<open>ASSERT1\<close> come from the
  framework's headers, which are not among the sources. The spec asks that the inputs
  of an operator be defined on the same mesh and that a mismatch fail with
  \<open>IncompatibleFieldsError\<close>.
\<close>

definition areFieldsCompatible :: "Field3D \<Rightarrow> Field3D \<Rightarrow> bool" where
  "areFieldsCompatible field1 field2 = (fmesh field1 = fmesh field2)"

definition zeroFrom :: "Field3D \<Rightarrow> Field3D" where
  "zeroFrom f = f\<lparr>fdata := (\<lambda>d. 0)\<rparr>"

section \<open>Cell-face reconstruction\<close>

text \<open>
  A \<open>Stencil1D\<close> holds the cell-centre values at the cell (\<open>c\<close>), its lower (\<open>m\<close>)
  and upper (\<open>p\<close>) neighbour, and the reconstructed values on the left (\<open>L\<close>) and
  right (\<open>R\<close>) cell faces. The reconstruction \<open>CellEdges\<close> is a template parameter
  of \<open>Div_par_fvv\<close>: a function that fills in \<open>L\<close> and \<open>R\<close>. The face values
  of a fresh stencil are placeholders that the reconstruction overwrites.
\<close>

record Stencil1D =
  st_c :: BoutReal
  st_m :: BoutReal
  st_p :: BoutReal
  st_L :: BoutReal
  st_R :: BoutReal

type_synonym CellEdges = "Stencil1D \<Rightarrow> Stencil1D"

definition stencil :: "Field3D \<Rightarrow> int \<Rightarrow> int \<Rightarrow> int \<Rightarrow> Stencil1D" where
  "stencil f i j k =
     \<lparr>st_c = fdata f (i, j, k), st_m = fdata f (i, j - 1, k), st_p = fdata f (i, j + 1, k),
      st_L = 0, st_R = 0\<rparr>"

text \<open>
  Modelled from the spec: the default reconstruction \<open>MC\<close>, the monotonised central
  limiter, is defined in the framework's finite-volume header, which is not among the
  sources. The slope is zero when the one-sided differences disagree in sign, and
  otherwise the smallest in magnitude of twice each one-sided difference and the
  central difference. It is used here to instantiate the template parameter.
\<close>

definition minmod :: "BoutReal \<Rightarrow> BoutReal \<Rightarrow> BoutReal \<Rightarrow> BoutReal" where
  "minmod a b c' =
     (if a * b \<le> 0 \<or> a * c' \<le> 0 then 0
      else (if a \<ge> 0 then 1 else - 1) * min (min \<bar>a\<bar> \<bar>b\<bar>) \<bar>c'\<bar>)"

definition MC :: CellEdges where
  "MC n =
     (let slope = minmod (2 * (st_p n - st_c n)) (0.5 * (st_p n - st_m n)) (2 * (st_c n - st_m n))
      in n\<lparr>st_L := st_c n - 0.5 * slope, st_R := st_c n + 0.5 * slope\<rparr>)"

section \<open>The parallel self-advective flux \<open>Div_par_fvv\<close>\<close>

text \<open>
  The geometric factors computed at the head of the loop over \<open>j\<close>: one common factor
  per face, divided by the cell volume \<open>dy * J\<close> of the cell that receives the flux.
\<close>

definition common_factor_r :: "Coordinates \<Rightarrow> int \<Rightarrow> int \<Rightarrow> BoutReal" where
  "common_factor_r coord i j =
     (J coord (i, j) + J coord (i, j + 1)) /
     (sqrt (g_22 coord (i, j)) + sqrt (g_22 coord (i, j + 1)))"

definition flux_factor_rc :: "Coordinates \<Rightarrow> int \<Rightarrow> int \<Rightarrow> BoutReal" where
  "flux_factor_rc coord i j = common_factor_r coord i j / (dy coord (i, j) * J coord (i, j))"

definition flux_factor_rp :: "Coordinates \<Rightarrow> int \<Rightarrow> int \<Rightarrow> BoutReal" where
  "flux_factor_rp coord i j =
     common_factor_r coord i j / (dy coord (i, j + 1) * J coord (i, j + 1))"

definition common_factor_l :: "Coordinates \<Rightarrow> int \<Rightarrow> int \<Rightarrow> BoutReal" where
  "common_factor_l coord i j =
     (J coord (i, j) + J coord (i, j - 1)) /
     (sqrt (g_22 coord (i, j)) + sqrt (g_22 coord (i, j - 1)))"

definition flux_factor_lc :: "Coordinates \<Rightarrow> int \<Rightarrow> int \<Rightarrow> BoutReal" where
  "flux_factor_lc coord i j = common_factor_l coord i j / (dy coord (i, j) * J coord (i, j))"

definition flux_factor_lm :: "Coordinates \<Rightarrow> int \<Rightarrow> int \<Rightarrow> BoutReal" where
  "flux_factor_lm coord i j =
     common_factor_l coord i j / (dy coord (i, j - 1) * J coord (i, j - 1))"

text \<open>
  The flux through the right face (\<open>y + 1/2\<close>) of cell \<open>(i, j, k)\<close>. At the last
  point of a non-periodic domain the flux is the boundary flux; elsewhere it is chosen
  by comparing the face velocity with the larger of the two wave speeds.
\<close>

definition flux_right ::
  "CellEdges \<Rightarrow> Mesh \<Rightarrow> Field3D \<Rightarrow> Field3D \<Rightarrow> Field3D \<Rightarrow> bool \<Rightarrow> int \<Rightarrow> int \<Rightarrow> int \<Rightarrow> BoutReal"
where
  "flux_right cellboundary mesh f v wave_speed fixflux i j k =
     (let s = cellboundary (stencil f i j k);
          sv = cellboundary (stencil v i j k);
          vpar = 0.5 * (fdata v (i, j, k) + fdata v (i, j + 1, k))
      in if lastY mesh i \<and> j = yend mesh \<and> \<not> periodicY mesh i then
           (let bndryval = 0.5 * (st_c s + st_p s)
            in if fixflux then bndryval * vpar * vpar
               else st_R s * vpar * st_R sv
                    + fdata wave_speed (i, j, k) * (st_R s * st_R sv - bndryval * vpar))
         else
           (let amax = max (fdata wave_speed (i, j, k)) (fdata wave_speed (i, j + 1, k))
            in if vpar > amax then st_R s * vpar * st_R sv
               else if vpar < - amax then 0
               else st_R s * 0.5 * (vpar + amax) * st_R sv))"

text \<open>The flux through the left face (\<open>y - 1/2\<close>) of cell \<open>(i, j, k)\<close>.\<close>

definition flux_left ::
  "CellEdges \<Rightarrow> Mesh \<Rightarrow> Field3D \<Rightarrow> Field3D \<Rightarrow> Field3D \<Rightarrow> bool \<Rightarrow> int \<Rightarrow> int \<Rightarrow> int \<Rightarrow> BoutReal"
where
  "flux_left cellboundary mesh f v wave_speed fixflux i j k =
     (let s = cellboundary (stencil f i j k);
          sv = cellboundary (stencil v i j k);
          vpar = 0.5 * (fdata v (i, j, k) + fdata v (i, j - 1, k))
      in if firstY mesh i \<and> j = ystart mesh \<and> \<not> periodicY mesh i then
           (let bndryval = 0.5 * (st_c s + st_m s)
            in if fixflux then bndryval * vpar * vpar
               else st_L s * vpar * st_L sv
                    - fdata wave_speed (i, j, k) * (st_L s * st_L sv - bndryval * vpar))
         else
           (let amax = max (fdata wave_speed (i, j, k)) (fdata wave_speed (i, j - 1, k))
            in if vpar < - amax then st_L s * vpar * st_L sv
               else if vpar > amax then 0
               else st_L s * 0.5 * (vpar - amax) * st_L sv))"

text \<open>
  The body of the innermost loop: the right-face flux is added to the cell and
  subtracted from its upper neighbour, then the left-face flux is subtracted from the
  cell and added to its lower neighbour.
\<close>

definition cell_update ::
  "CellEdges \<Rightarrow> Mesh \<Rightarrow> Coordinates \<Rightarrow> Field3D \<Rightarrow> Field3D \<Rightarrow> Field3D \<Rightarrow> bool \<Rightarrow>
   int \<Rightarrow> int \<Rightarrow> int \<Rightarrow> (Ind3D \<Rightarrow> BoutReal) \<Rightarrow> (Ind3D \<Rightarrow> BoutReal)"
where
  "cell_update cellboundary mesh coord f v wave_speed fixflux i j k result =
     (let flux = flux_right cellboundary mesh f v wave_speed fixflux i j k;
          result1 = result((i, j, k) := result (i, j, k) + flux * flux_factor_rc coord i j);
          result2 = result1((i, j + 1, k) := result1 (i, j + 1, k) - flux * flux_factor_rp coord i j);
          flux' = flux_left cellboundary mesh f v wave_speed fixflux i j k;
          result3 = result2((i, j, k) := result2 (i, j, k) - flux' * flux_factor_lc coord i j);
          result4 = result3((i, j - 1, k) := result3 (i, j - 1, k) + flux' * flux_factor_lm coord i j)
      in result4)"

text \<open>
  The range of \<open>j\<close> for a given \<open>i\<close>: one guard cell is included at an end that is
  not a physical boundary.
\<close>

definition ys_of :: "Mesh \<Rightarrow> int \<Rightarrow> int" where
  "ys_of mesh i = (if \<not> firstY mesh i \<or> periodicY mesh i then ystart mesh - 1 else ystart mesh)"

definition ye_of :: "Mesh \<Rightarrow> int \<Rightarrow> int" where
  "ye_of mesh i = (if \<not> lastY mesh i \<or> periodicY mesh i then yend mesh + 1 else yend mesh)"

text \<open>
  The three nested loops over \<open>i\<close>, \<open>j\<close> and \<open>k\<close>, accumulating into the result,
  which starts from zero. The fields are the field-aligned ones.
\<close>

definition accumulate_fluxes ::
  "CellEdges \<Rightarrow> Mesh \<Rightarrow> Coordinates \<Rightarrow> Field3D \<Rightarrow> Field3D \<Rightarrow> Field3D \<Rightarrow> bool \<Rightarrow>
   (Ind3D \<Rightarrow> BoutReal) \<Rightarrow> (Ind3D \<Rightarrow> BoutReal)"
where
  "accumulate_fluxes cellboundary mesh coord f v wave_speed fixflux result =
     fold (\<lambda>i. fold (\<lambda>j. fold (\<lambda>k. cell_update cellboundary mesh coord f v wave_speed fixflux i j k)
                              [0 .. LocalNz mesh - 1])
                     [ys_of mesh i .. ye_of mesh i])
          [xstart mesh .. xend mesh] result"

text \<open>
  \<open>Div_par_fvv\<close> itself. The mesh and the coordinates are those of \<open>f_in\<close>. The two
  assertions come first; then the inputs are brought into field-aligned form, the
  fluxes are accumulated, and the result is transformed back.
\<close>

definition Div_par_fvv ::
  "CellEdges \<Rightarrow> Mesh \<Rightarrow> Coordinates \<Rightarrow> Field3D \<Rightarrow> Field3D \<Rightarrow> Field3D \<Rightarrow> bool \<Rightarrow> error + Field3D"
where
  "Div_par_fvv cellboundary mesh coord f_in v_in wave_speed_in fixflux =
     (if \<not> areFieldsCompatible f_in v_in then Inl IncompatibleFieldsError
      else if \<not> areFieldsCompatible f_in wave_speed_in then Inl IncompatibleFieldsError
      else
        (let f = toFieldAligned coord f_in ''RGN_NOX'';
             v = toFieldAligned coord v_in ''RGN_NOX'';
             wave_speed = toFieldAligned coord wave_speed_in ''RGN_NOX'';
             result = zeroFrom f;
             result' = result\<lparr>fdata :=
               accumulate_fluxes cellboundary mesh coord f v wave_speed fixflux (fdata result)\<rparr>
         in Inr (fromFieldAligned coord result' ''RGN_NOBNDRY'')))"

text \<open>
  For the proofs: the change that one execution of the loop body makes to the result,
  as a function of the cell. The body adds to three cells, \<open>(i, j, k)\<close>,
  \<open>(i, j + 1, k)\<close> and \<open>(i, j - 1, k)\<close>.
\<close>

definition cell_delta ::
  "CellEdges \<Rightarrow> Mesh \<Rightarrow> Coordinates \<Rightarrow> Field3D \<Rightarrow> Field3D \<Rightarrow> Field3D \<Rightarrow> bool \<Rightarrow>
   int \<Rightarrow> int \<Rightarrow> int \<Rightarrow> Ind3D \<Rightarrow> BoutReal"
where
  "cell_delta cellboundary mesh coord f v wave_speed fixflux i j k x =
     (if x = (i, j, k)
      then flux_right cellboundary mesh f v wave_speed fixflux i j k * flux_factor_rc coord i j
           - flux_left cellboundary mesh f v wave_speed fixflux i j k * flux_factor_lc coord i j
      else 0)
     + (if x = (i, j + 1, k)
        then - (flux_right cellboundary mesh f v wave_speed fixflux i j k * flux_factor_rp coord i j)
        else 0)
     + (if x = (i, j - 1, k)
        then flux_left cellboundary mesh f v wave_speed fixflux i j k * flux_factor_lm coord i j
        else 0)"

section \<open>Field arithmetic\<close>

text \<open>
  The framework's operators on fields act cell by cell. A two-dimensional field is
  constant along \<open>z\<close> when it is combined with a three-dimensional one.
\<close>

definition fmap :: "(BoutReal \<Rightarrow> BoutReal) \<Rightarrow> Field3D \<Rightarrow> Field3D" where
  "fmap g a = a\<lparr>fdata := (\<lambda>d. g (fdata a d))\<rparr>"

definition fmap2 :: "(BoutReal \<Rightarrow> BoutReal \<Rightarrow> BoutReal) \<Rightarrow> Field3D \<Rightarrow> Field3D \<Rightarrow> Field3D" where
  "fmap2 g a b = a\<lparr>fdata := (\<lambda>d. g (fdata a d) (fdata b d))\<rparr>"

definition fmap2D :: "(BoutReal \<Rightarrow> BoutReal \<Rightarrow> BoutReal) \<Rightarrow> Field2D \<Rightarrow> Field3D \<Rightarrow> Field3D" where
  "fmap2D g a b = b\<lparr>fdata := (\<lambda>(i, j, k). g (a (i, j)) (fdata b (i, j, k)))\<rparr>"

text \<open>The two helpers of the density component's source file.\<close>

definition floor_BoutReal :: "BoutReal \<Rightarrow> BoutReal \<Rightarrow> BoutReal" where
  "floor_BoutReal val minimum = (if val < minimum then minimum else val)"

definition clamp :: "Field3D \<Rightarrow> BoutReal \<Rightarrow> BoutReal \<Rightarrow> Field3D" where
  "clamp var lo hi =
     var\<lparr>fdata := (\<lambda>d. if fdata var d < lo then lo
                         else if fdata var d > hi then hi
                         else fdata var d)\<rparr>"

section \<open>The state shared by the components\<close>

text \<open>
  The state is a tree of options. Its part read and written here: one section per
  species, the optional section \<open>fields\<close> (here \<open>fields_section\<close>) with the
  potential \<open>phi\<close>, and the optional \<open>sound_speed\<close>. A value that is not set is
  \<open>None\<close>.
\<close>

record species_options =
  density :: "Field3D option"
  velocity :: "Field3D option"
  temperature :: "Field3D option"
  pressure :: "Field3D option"
  momentum :: "Field3D option"
  density_source :: "Field3D option"
  momentum_source :: "Field3D option"
  AA :: "BoutReal option"
  charge :: "BoutReal option"

record fields_options =
  phi :: "Field3D option"

record Options =
  species :: "string \<rightharpoonup> species_options"
  fields_section :: "fields_options option"
  sound_speed :: "Field3D option"

text \<open>
  Modelled from the spec: the accessor \<open>get\<close> is declared in the component header,
  which is not among the sources. The spec asks that \<open>get\<close> on a missing required
  key fail loudly, with \<open>MissingStateFieldError\<close>. Reading a section that does not
  exist from a constant state fails in the same way.
\<close>

definition get :: "'a option \<Rightarrow> error + 'a" where
  "get opt = (case opt of None \<Rightarrow> Inl MissingStateFieldError | Some val \<Rightarrow> Inr val)"

definition unset_species :: species_options where
  "unset_species =
     \<lparr>density = None, velocity = None, temperature = None, pressure = None, momentum = None,
      density_source = None, momentum_source = None, AA = None, charge = None\<rparr>"

text \<open>\<open>state.isSection("fields") and state["fields"].isSet("phi")\<close>\<close>

definition phi_isSet :: "Options \<Rightarrow> bool" where
  "phi_isSet state = (case fields_section state of None \<Rightarrow> False | Some sec \<Rightarrow> phi sec \<noteq> None)"

definition get_phi :: "Options \<Rightarrow> error + Field3D" where
  "get_phi state =
     (case fields_section state of
        None \<Rightarrow> Inl MissingStateFieldError
      | Some sec \<Rightarrow> get (phi sec))"

text \<open>
  The operators and constants of the framework that the components call: they are
  parameters of the model. The operators take fields that have data.
\<close>

record Framework =
  Div_n_bxGrad_f_B_XPPM :: "Field3D \<Rightarrow> Field3D \<Rightarrow> bool \<Rightarrow> bool \<Rightarrow> bool \<Rightarrow> Field3D"
  Div_par :: "Field3D \<Rightarrow> Field3D \<Rightarrow> Field3D \<Rightarrow> Field3D"
  Div_par_K_Grad_par :: "Field3D \<Rightarrow> Field3D \<Rightarrow> Field3D"
  Div_Perp_Lap_FV_Index :: "Field3D \<Rightarrow> Field3D \<Rightarrow> bool \<Rightarrow> Field3D"
  D4DZ4 :: "Field3D \<Rightarrow> Field3D"
  Grad_par :: "Field3D \<Rightarrow> Field3D"
  communicate :: "Field3D \<Rightarrow> Field3D"
  SI_Me :: BoutReal
  SI_Mp :: BoutReal

text \<open>
  The typical wave speed, as both \<open>finally\<close> methods compute it. The variable
  \<open>sound_speed\<close> is declared without an initialiser: it is a field without data,
  here \<open>None\<close>. When the state has \<open>sound_speed\<close> set, the value read from the
  state initialises a second variable of the same name, declared inside the branch,
  and the outer variable stays without data. Otherwise the species temperature is
  read and its square root is assigned to the outer variable.
\<close>

definition typical_sound_speed :: "Options \<Rightarrow> species_options \<Rightarrow> error + Field3D option" where
  "typical_sound_speed state sp =
     (let sound_speed_outer = None
      in case sound_speed state of
           Some val \<Rightarrow> (let sound_speed_inner = val in Inr sound_speed_outer)
         | None \<Rightarrow>
            (case get (temperature sp) of
               Inl e \<Rightarrow> Inl e
             | Inr T \<Rightarrow> Inr (Some (fmap sqrt T))))"

section \<open>The density component\<close>

record EvolveDensity =
  ed_name :: string
  ed_bndry_flux :: bool
  ed_poloidal_flows :: bool
  ed_density_floor :: BoutReal
  ed_low_n_diffuse :: bool
  ed_low_n_diffuse_perp :: bool
  ed_hyper_z :: bool
  ed_evolve_log :: bool
  ed_charge :: BoutReal
  ed_AA :: BoutReal
  ed_source :: Field3D
  ed_N :: Field3D
  ed_logN :: Field3D
  ed_Sn :: Field3D
  ed_ddt_N :: Field3D
  ed_ddt_logN :: Field3D

text \<open>
  \<open>EvolveDensity::transform\<close> publishes the density, the atomic mass and, for a
  charged species, the charge.
\<close>

definition EvolveDensity_transform ::
  "Framework \<Rightarrow> EvolveDensity \<Rightarrow> Options \<Rightarrow> EvolveDensity \<times> Options"
where
  "EvolveDensity_transform fw self state =
     (let N1 = (if ed_evolve_log self then fmap exp (ed_logN self) else ed_N self);
          N2 = communicate fw N1;
          sp = (case species state (ed_name self) of None \<Rightarrow> unset_species | Some sec \<Rightarrow> sec);
          sp1 = sp\<lparr>density := Some N2\<rparr>;
          sp2 = sp1\<lparr>AA := Some (ed_AA self)\<rparr>;
          sp3 = (if ed_charge self \<noteq> 0 then sp2\<lparr>charge := Some (ed_charge self)\<rparr> else sp2)
      in (self\<lparr>ed_N := N2\<rparr>, state\<lparr>species := (species state)(ed_name self \<mapsto> sp3)\<rparr>))"

text \<open>
  The factor of the low-density parallel diffusion:
  \<open>log(density_floor / clamp(N, 1e-6 * density_floor, density_floor))\<close>.
\<close>

definition low_n_log_factor :: "BoutReal \<Rightarrow> Field3D \<Rightarrow> Field3D" where
  "low_n_log_factor floor_val n =
     fmap ln (fmap (\<lambda>x. floor_val / x) (clamp n (0.000001 * floor_val) floor_val))"

text \<open>
  The third argument of \<open>FV::Div_par\<close>: the typical wave speed, multiplied by
  \<open>sqrt(SI::Me / SI::Mp)\<close> when the potential is set. The product reads the cells
  of the wave speed, so it fails on a variable without data; without the potential
  the variable is handed on as it is.
\<close>

definition density_wave_speed ::
  "Framework \<Rightarrow> Options \<Rightarrow> species_options \<Rightarrow> error + Field3D option"
where
  "density_wave_speed fw state sp =
     (case typical_sound_speed state sp of
        Inl e \<Rightarrow> Inl e
      | Inr sound_speed_var \<Rightarrow>
          if phi_isSet state
          then (case sound_speed_var of
                  None \<Rightarrow> Inl EmptyDataError
                | Some wave_speed \<Rightarrow>
                    Inr (Some (fmap (\<lambda>x. sqrt (SI_Me fw / SI_Mp fw) * x) wave_speed)))
          else Inr sound_speed_var)"

text \<open>
  \<open>EvolveDensity::finally\<close>. The coordinates are those of \<open>N\<close>. \<open>FV::Div_par\<close>
  reads its wave speed in every cell, so the call fails when the wave speed handed
  to it has no data. The finiteness check of the result, compiled in at check level
  2, has nothing to check on real numbers.
\<close>

definition EvolveDensity_finally ::
  "Framework \<Rightarrow> Coordinates \<Rightarrow> EvolveDensity \<Rightarrow> Options \<Rightarrow> error + EvolveDensity"
where
  "EvolveDensity_finally fw coord self state =
     (case species state (ed_name self) of
        None \<Rightarrow> Inl MissingStateFieldError
      | Some sp \<Rightarrow>
     (case get (density sp) of
        Inl e \<Rightarrow> Inl e
      | Inr n \<Rightarrow>
     (case (if phi_isSet state
            then (case get_phi state of
                    Inl e \<Rightarrow> Inl e
                  | Inr phi_val \<Rightarrow>
                      Inr (fmap uminus (Div_n_bxGrad_f_B_XPPM fw n phi_val
                             (ed_bndry_flux self) (ed_poloidal_flows self) True)))
            else Inr ((ed_ddt_N self)\<lparr>fdata := (\<lambda>d. 0)\<rparr>)) of
        Inl e \<Rightarrow> Inl e
      | Inr ddt0 \<Rightarrow>
     (case (if velocity sp \<noteq> None
            then (case get (velocity sp) of
                    Inl e \<Rightarrow> Inl e
                  | Inr v \<Rightarrow>
                     (case density_wave_speed fw state sp of
                        Inl e \<Rightarrow> Inl e
                      | Inr None \<Rightarrow> Inl EmptyDataError
                      | Inr (Some wave_speed) \<Rightarrow>
                          Inr (fmap2 (-) ddt0 (Div_par fw n v wave_speed))))
            else Inr ddt0) of
        Inl e \<Rightarrow> Inl e
      | Inr ddt1 \<Rightarrow>
     (let ddt2 = (if ed_low_n_diffuse self
                  then fmap2 (+) ddt1
                         (Div_par_K_Grad_par fw
                            (fmap2D (*) (\<lambda>x. (dy coord x)\<^sup>2 * g_22 coord x)
                               (low_n_log_factor (ed_density_floor self) n))
                            n)
                  else ddt1);
          ddt3 = (if ed_low_n_diffuse_perp self
                  then fmap2 (+) ddt2
                         (Div_Perp_Lap_FV_Index fw
                            (fmap (\<lambda>x. ed_density_floor self / x)
                               (fmap (\<lambda>x. floor_BoutReal x (0.001 * ed_density_floor self)) n))
                            n (ed_bndry_flux self))
                  else ddt2);
          ddt4 = (if of_bool (ed_hyper_z self) > (0 :: BoutReal)
                  then fmap2 (-) ddt3
                         (fmap2D (*) (\<lambda>x. of_bool (ed_hyper_z self) * ((dz coord x)\<^sup>2)\<^sup>2)
                            (D4DZ4 fw n))
                  else ddt3);
          Sn0 = ed_source self;
          Sn1 = (case density_source sp of None \<Rightarrow> Sn0 | Some src \<Rightarrow> fmap2 (+) Sn0 src);
          ddt5 = fmap2 (+) ddt4 Sn1;
          self1 = self\<lparr>ed_N := n, ed_Sn := Sn1, ed_ddt_N := ddt5\<rparr>
      in Inr (if ed_evolve_log self
              then self1\<lparr>ed_ddt_logN := fmap2 (/) ddt5 n\<rparr>
              else self1))))))"

section \<open>The momentum component\<close>

record EvolveMomentum =
  em_name :: string
  em_bndry_flux :: bool
  em_poloidal_flows :: bool
  em_NV :: Field3D
  em_ddt_NV :: Field3D

text \<open>
  \<open>EvolveMomentum::transform\<close> publishes the momentum and the velocity
  \<open>NV / (AA * N)\<close>, reading the density and the atomic mass of the species.
\<close>

definition EvolveMomentum_transform ::
  "Framework \<Rightarrow> EvolveMomentum \<Rightarrow> Options \<Rightarrow> error + EvolveMomentum \<times> Options"
where
  "EvolveMomentum_transform fw self state =
     (let NV1 = communicate fw (em_NV self);
          sp = (case species state (em_name self) of None \<Rightarrow> unset_species | Some sec \<Rightarrow> sec);
          sp1 = sp\<lparr>momentum := Some NV1\<rparr>
      in case get (density sp1) of
           Inl e \<Rightarrow> Inl e
         | Inr n \<Rightarrow>
        (case get (AA sp1) of
           Inl e \<Rightarrow> Inl e
         | Inr aa \<Rightarrow>
            (let sp2 = sp1\<lparr>velocity := Some (fmap2 (/) NV1 (fmap (\<lambda>x. aa * x) n))\<rparr>
             in Inr (self\<lparr>em_NV := NV1\<rparr>,
                     state\<lparr>species := (species state)(em_name self \<mapsto> sp2)\<rparr>))))"

text \<open>
  \<open>EvolveMomentum::finally\<close>. \<open>FV::Div_par_fvv\<close> is called with its default
  reconstruction \<open>MC\<close>, on the mesh and the coordinates of the density, and with
  \<open>fixflux = false\<close>. When the wave speed handed to it has no data, the call
  fails: the assertion on the velocity comes first, the assertion on the wave speed
  compares meshes and reads no cell, and then the wave speed is read, by the
  transform to field-aligned form and in the loop body (lines 25, 111, 116, 146 and
  151).
\<close>

definition EvolveMomentum_finally ::
  "Framework \<Rightarrow> Mesh \<Rightarrow> Coordinates \<Rightarrow> EvolveMomentum \<Rightarrow> Options \<Rightarrow> error + EvolveMomentum"
where
  "EvolveMomentum_finally fw mesh coord self state =
     (case species state (em_name self) of
        None \<Rightarrow> Inl MissingStateFieldError
      | Some sp \<Rightarrow>
     (case (if phi_isSet state
            then (case get_phi state of
                    Inl e \<Rightarrow> Inl e
                  | Inr phi_val \<Rightarrow>
                      Inr (fmap uminus (Div_n_bxGrad_f_B_XPPM fw (em_NV self) phi_val
                             (em_bndry_flux self) (em_poloidal_flows self) True)))
            else Inr ((em_ddt_NV self)\<lparr>fdata := (\<lambda>d. 0)\<rparr>)) of
        Inl e \<Rightarrow> Inl e
      | Inr ddt0 \<Rightarrow>
     (case get (density sp) of
        Inl e \<Rightarrow> Inl e
      | Inr n \<Rightarrow>
     (case get (velocity sp) of
        Inl e \<Rightarrow> Inl e
      | Inr v \<Rightarrow>
     (case typical_sound_speed state sp of
        Inl e \<Rightarrow> Inl e
      | Inr sound_speed_var \<Rightarrow>
     (case (case sound_speed_var of
              None \<Rightarrow>
                if \<not> areFieldsCompatible n v then Inl IncompatibleFieldsError
                else Inl EmptyDataError
            | Some wave_speed \<Rightarrow> Div_par_fvv MC mesh coord n v wave_speed False) of
        Inl e \<Rightarrow> Inl e
      | Inr flux_div \<Rightarrow>
     (let ddt1 = fmap2 (-) ddt0 flux_div;
          ddt2 = (case pressure sp of None \<Rightarrow> ddt1 | Some P \<Rightarrow> fmap2 (-) ddt1 (Grad_par fw P));
          ddt3 = (case momentum_source sp of None \<Rightarrow> ddt2 | Some src \<Rightarrow> fmap2 (+) ddt2 src)
      in Inr (self\<lparr>em_ddt_NV := ddt3\<rparr>))))))))"

section \<open>A small mesh for concrete instances\<close>

text \<open>
  A mesh with interior cells \<open>x = 2, 3\<close> and \<open>y = 2, 3, 4\<close>, two points in \<open>z\<close>,
  physical boundaries at both ends of every field line, unit metric, and the identity
  as parallel transform; and the field with the same value in every cell.
\<close>

definition uniform_field :: "nat \<Rightarrow> BoutReal \<Rightarrow> Field3D" where
  "uniform_field mesh_id val = \<lparr>fmesh = mesh_id, fdata = (\<lambda>d. val)\<rparr>"

definition example_mesh :: Mesh where
  "example_mesh =
     \<lparr>xstart = 2, xend = 3, ystart = 2, yend = 4, LocalNz = 2,
      firstY = (\<lambda>i. True), lastY = (\<lambda>i. True), periodicY = (\<lambda>i. False)\<rparr>"

definition example_coord :: Coordinates where
  "example_coord =
     \<lparr>J = (\<lambda>x. 1), g_22 = (\<lambda>x. 1), dy = (\<lambda>x. 1), dz = (\<lambda>x. 1),
      toFieldAligned = (\<lambda>f rgn. f), fromFieldAligned = (\<lambda>f rgn. f)\<rparr>"

text \<open>A field that grows along \<open>y\<close>: its value in cell \<open>(i, j, k)\<close> is \<open>j\<close>.\<close>

definition ramp_field :: Field3D where
  "ramp_field = \<lparr>fmesh = 0, fdata = (\<lambda>(i, j, k). of_int j)\<rparr>"

text \<open>
  A framework whose operators hand back one of their arguments, with the electron and
  proton masses in kilograms; a state with nothing set; a density and a momentum
  component for the species \<open>e\<close>; and a state in which that species is complete.
\<close>

definition example_fw :: Framework where
  "example_fw =
     \<lparr>Div_n_bxGrad_f_B_XPPM = (\<lambda>n phi_val bndry poloidal positive. phi_val),
      Div_par = (\<lambda>n v wave_speed. wave_speed),
      Div_par_K_Grad_par = (\<lambda>K n. K),
      Div_Perp_Lap_FV_Index = (\<lambda>a n bndry. a),
      D4DZ4 = (\<lambda>n. n),
      Grad_par = (\<lambda>P. P),
      communicate = (\<lambda>f. f),
      SI_Me = 910938356 / 10 ^ 39,
      SI_Mp = 1672621898 / 10 ^ 36\<rparr>"

definition example_state :: Options where
  "example_state = \<lparr>species = Map.empty, fields_section = None, sound_speed = None\<rparr>"

definition example_density :: EvolveDensity where
  "example_density =
     \<lparr>ed_name = ''e'', ed_bndry_flux = True, ed_poloidal_flows = True,
      ed_density_floor = 1 / 10 ^ 5, ed_low_n_diffuse = False, ed_low_n_diffuse_perp = False,
      ed_hyper_z = False, ed_evolve_log = False, ed_charge = - 1, ed_AA = 1 / 1836,
      ed_source = uniform_field 0 7, ed_N = uniform_field 0 2, ed_logN = uniform_field 0 0,
      ed_Sn = uniform_field 0 0, ed_ddt_N = uniform_field 0 5, ed_ddt_logN = uniform_field 0 0\<rparr>"

definition example_momentum :: EvolveMomentum where
  "example_momentum =
     \<lparr>em_name = ''e'', em_bndry_flux = True, em_poloidal_flows = True,
      em_NV = uniform_field 0 6, em_ddt_NV = uniform_field 0 5\<rparr>"

definition example_species :: species_options where
  "example_species =
     \<lparr>density = Some (uniform_field 0 2), velocity = Some (uniform_field 0 3),
      temperature = Some (uniform_field 0 4), pressure = Some (uniform_field 0 8),
      momentum = Some (uniform_field 0 6), density_source = None,
      momentum_source = Some (uniform_field 0 1), AA = Some 1, charge = Some (- 1)\<rparr>"

definition example_state_full :: Options where
  "example_state_full =
     \<lparr>species = [''e'' \<mapsto> example_species], fields_section = None, sound_speed = None\<rparr>"

section \<open>The face fluxes of \<open>Div_par_fvv\<close>\<close>

lemma right_regimes:
  fixes vpar amax up blend :: real
  assumes "flux = (if vpar > amax then up else if vpar < - amax then 0 else blend)"
      and "0 \<le> amax"
  shows "(vpar > amax \<longrightarrow> flux = up) \<and> (vpar < - amax \<longrightarrow> flux = 0)
       \<and> (\<not> vpar > amax \<and> \<not> vpar < - amax \<longrightarrow> flux = blend) \<and> (vpar = amax \<longrightarrow> flux = blend)"
  using assms by auto

lemma left_regimes:
  fixes vpar amax up blend :: real
  assumes "flux = (if vpar < - amax then up else if vpar > amax then 0 else blend)"
      and "0 \<le> amax"
  shows "(vpar < - amax \<longrightarrow> flux = up) \<and> (vpar > amax \<longrightarrow> flux = 0)
       \<and> (\<not> vpar < - amax \<and> \<not> vpar > amax \<longrightarrow> flux = blend) \<and> (vpar = - amax \<longrightarrow> flux = blend)"
  using assms by auto

lemma flux_right_interior:
  assumes "\<not> (lastY mesh i \<and> j = yend mesh \<and> \<not> periodicY mesh i)"
  shows "flux_right cellboundary mesh f v wave_speed fixflux i j k =
      (let s = cellboundary (stencil f i j k);
           sv = cellboundary (stencil v i j k);
           vpar = 0.5 * (fdata v (i, j, k) + fdata v (i, j + 1, k));
           amax = max (fdata wave_speed (i, j, k)) (fdata wave_speed (i, j + 1, k))
       in if vpar > amax then st_R s * vpar * st_R sv
          else if vpar < - amax then 0
          else st_R s * 0.5 * (vpar + amax) * st_R sv)"
  unfolding flux_right_def Let_def if_not_P[OF assms] ..

lemma flux_left_interior:
  assumes "\<not> (firstY mesh i \<and> j = ystart mesh \<and> \<not> periodicY mesh i)"
  shows "flux_left cellboundary mesh f v wave_speed fixflux i j k =
      (let s = cellboundary (stencil f i j k);
           sv = cellboundary (stencil v i j k);
           vpar = 0.5 * (fdata v (i, j, k) + fdata v (i, j - 1, k));
           amax = max (fdata wave_speed (i, j, k)) (fdata wave_speed (i, j - 1, k))
       in if vpar < - amax then st_L s * vpar * st_L sv
          else if vpar > amax then 0
          else st_L s * 0.5 * (vpar - amax) * st_L sv)"
  unfolding flux_left_def Let_def if_not_P[OF assms] ..

lemma flux_right_boundary:
  assumes "lastY mesh i \<and> j = yend mesh \<and> \<not> periodicY mesh i"
  shows "flux_right cellboundary mesh f v wave_speed fixflux i j k =
      (let s = cellboundary (stencil f i j k);
           sv = cellboundary (stencil v i j k);
           vpar = 0.5 * (fdata v (i, j, k) + fdata v (i, j + 1, k));
           bndryval = 0.5 * (st_c s + st_p s)
       in if fixflux then bndryval * vpar * vpar
          else st_R s * vpar * st_R sv
               + fdata wave_speed (i, j, k) * (st_R s * st_R sv - bndryval * vpar))"
  unfolding flux_right_def Let_def if_P[OF assms] ..

lemma flux_left_boundary:
  assumes "firstY mesh i \<and> j = ystart mesh \<and> \<not> periodicY mesh i"
  shows "flux_left cellboundary mesh f v wave_speed fixflux i j k =
      (let s = cellboundary (stencil f i j k);
           sv = cellboundary (stencil v i j k);
           vpar = 0.5 * (fdata v (i, j, k) + fdata v (i, j - 1, k));
           bndryval = 0.5 * (st_c s + st_m s)
       in if fixflux then bndryval * vpar * vpar
          else st_L s * vpar * st_L sv
               - fdata wave_speed (i, j, k) * (st_L s * st_L sv - bndryval * vpar))"
  unfolding flux_left_def Let_def if_P[OF assms] ..

text \<open>
  Claim C1. At a right face that is not the last point of a non-periodic domain, the
  flux follows the three regimes in the order of the code: pure upwind
  \<open>s.R * vpar * sv.R\<close> when \<open>vpar > amax\<close>, else zero when \<open>vpar < - amax\<close>, else
  the blend \<open>s.R * 0.5 * (vpar + amax) * sv.R\<close>. For a non-negative maximum wave
  speed the three conditions exclude one another, and the marginal case
  \<open>vpar = amax\<close> is in the blended regime. The left face mirrors this, with the
  tests exchanged and the blend weight \<open>0.5 * (vpar - amax)\<close>.
\<close>

theorem Div_par_fvv_interior_flux_regimes:
  fixes cellboundary :: CellEdges
  shows
    "(\<not> (lastY mesh i \<and> j = yend mesh \<and> \<not> periodicY mesh i) \<longrightarrow>
      (let s = cellboundary (stencil f i j k);
           sv = cellboundary (stencil v i j k);
           vpar = 0.5 * (fdata v (i, j, k) + fdata v (i, j + 1, k));
           amax = max (fdata wave_speed (i, j, k)) (fdata wave_speed (i, j + 1, k));
           flux = flux_right cellboundary mesh f v wave_speed fixflux i j k
       in flux = (if vpar > amax then st_R s * vpar * st_R sv
                  else if vpar < - amax then 0
                  else st_R s * 0.5 * (vpar + amax) * st_R sv)
          \<and> (0 \<le> amax \<longrightarrow>
               (vpar > amax \<longrightarrow> flux = st_R s * vpar * st_R sv)
             \<and> (vpar < - amax \<longrightarrow> flux = 0)
             \<and> (\<not> vpar > amax \<and> \<not> vpar < - amax \<longrightarrow>
                  flux = st_R s * 0.5 * (vpar + amax) * st_R sv)
             \<and> (vpar = amax \<longrightarrow> flux = st_R s * 0.5 * (vpar + amax) * st_R sv))))
     \<and>
     (\<not> (firstY mesh i \<and> j = ystart mesh \<and> \<not> periodicY mesh i) \<longrightarrow>
      (let s = cellboundary (stencil f i j k);
           sv = cellboundary (stencil v i j k);
           vpar = 0.5 * (fdata v (i, j, k) + fdata v (i, j - 1, k));
           amax = max (fdata wave_speed (i, j, k)) (fdata wave_speed (i, j - 1, k));
           flux = flux_left cellboundary mesh f v wave_speed fixflux i j k
       in flux = (if vpar < - amax then st_L s * vpar * st_L sv
                  else if vpar > amax then 0
                  else st_L s * 0.5 * (vpar - amax) * st_L sv)
          \<and> (0 \<le> amax \<longrightarrow>
               (vpar < - amax \<longrightarrow> flux = st_L s * vpar * st_L sv)
             \<and> (vpar > amax \<longrightarrow> flux = 0)
             \<and> (\<not> vpar < - amax \<and> \<not> vpar > amax \<longrightarrow>
                  flux = st_L s * 0.5 * (vpar - amax) * st_L sv)
             \<and> (vpar = - amax \<longrightarrow> flux = st_L s * 0.5 * (vpar - amax) * st_L sv))))"
proof (intro conjI impI)
  assume a: "\<not> (lastY mesh i \<and> j = yend mesh \<and> \<not> periodicY mesh i)"
  note r = flux_right_interior[OF a, of cellboundary f v wave_speed fixflux k, unfolded Let_def]
  show "let s = cellboundary (stencil f i j k);
           sv = cellboundary (stencil v i j k);
           vpar = 0.5 * (fdata v (i, j, k) + fdata v (i, j + 1, k));
           amax = max (fdata wave_speed (i, j, k)) (fdata wave_speed (i, j + 1, k));
           flux = flux_right cellboundary mesh f v wave_speed fixflux i j k
       in flux = (if vpar > amax then st_R s * vpar * st_R sv
                  else if vpar < - amax then 0
                  else st_R s * 0.5 * (vpar + amax) * st_R sv)
          \<and> (0 \<le> amax \<longrightarrow>
               (vpar > amax \<longrightarrow> flux = st_R s * vpar * st_R sv)
             \<and> (vpar < - amax \<longrightarrow> flux = 0)
             \<and> (\<not> vpar > amax \<and> \<not> vpar < - amax \<longrightarrow>
                  flux = st_R s * 0.5 * (vpar + amax) * st_R sv)
             \<and> (vpar = amax \<longrightarrow> flux = st_R s * 0.5 * (vpar + amax) * st_R sv))"
    unfolding Let_def using r right_regimes[OF r] by blast
next
  assume a: "\<not> (firstY mesh i \<and> j = ystart mesh \<and> \<not> periodicY mesh i)"
  note l = flux_left_interior[OF a, of cellboundary f v wave_speed fixflux k, unfolded Let_def]
  show "let s = cellboundary (stencil f i j k);
           sv = cellboundary (stencil v i j k);
           vpar = 0.5 * (fdata v (i, j, k) + fdata v (i, j - 1, k));
           amax = max (fdata wave_speed (i, j, k)) (fdata wave_speed (i, j - 1, k));
           flux = flux_left cellboundary mesh f v wave_speed fixflux i j k
       in flux = (if vpar < - amax then st_L s * vpar * st_L sv
                  else if vpar > amax then 0
                  else st_L s * 0.5 * (vpar - amax) * st_L sv)
          \<and> (0 \<le> amax \<longrightarrow>
               (vpar < - amax \<longrightarrow> flux = st_L s * vpar * st_L sv)
             \<and> (vpar > amax \<longrightarrow> flux = 0)
             \<and> (\<not> vpar < - amax \<and> \<not> vpar > amax \<longrightarrow>
                  flux = st_L s * 0.5 * (vpar - amax) * st_L sv)
             \<and> (vpar = - amax \<longrightarrow> flux = st_L s * 0.5 * (vpar - amax) * st_L sv))"
    unfolding Let_def using l left_regimes[OF l] by blast
qed

text \<open>
  The marginal case on the small mesh: uniform \<open>f = 1\<close> and \<open>v = 1\<close> equal to the
  wave speed. The right face is in the blended regime with weight \<open>1\<close>, the left face
  with weight \<open>0\<close>.
\<close>

lemma MC_uniform:
  "MC (stencil (uniform_field mid a) i j k) =
     \<lparr>st_c = a, st_m = a, st_p = a, st_L = a, st_R = a\<rparr>"
  by (simp add: MC_def stencil_def uniform_field_def minmod_def)

theorem Div_par_fvv_interior_flux_regimes_witness:
  "flux_right MC example_mesh (uniform_field 0 1) (uniform_field 0 1) (uniform_field 0 1) False 2 3 0 = 1
   \<and> flux_left MC example_mesh (uniform_field 0 1) (uniform_field 0 1) (uniform_field 0 1) False 2 3 0 = 0"
proof -
  have r: "\<not> (lastY example_mesh 2 \<and> (3::int) = yend example_mesh \<and> \<not> periodicY example_mesh 2)"
    by (simp add: example_mesh_def)
  have l: "\<not> (firstY example_mesh 2 \<and> (3::int) = ystart example_mesh \<and> \<not> periodicY example_mesh 2)"
    by (simp add: example_mesh_def)
  have d: "fdata (uniform_field 0 1) = (\<lambda>d. 1)" by (simp add: uniform_field_def)
  show ?thesis
    using Div_par_fvv_interior_flux_regimes
       [of example_mesh 2 3 MC "uniform_field 0 1" 0 "uniform_field 0 1" "uniform_field 0 1" False]
       r l
    by (simp add: Let_def MC_uniform d)
qed


text \<open>
  Claim C3. At the last point of a non-periodic domain the right-face flux does not
  depend on the comparison of \<open>vpar\<close> with the wave speeds: with \<open>fixflux\<close> it is
  \<open>bndryval * vpar * vpar\<close>, where \<open>bndryval = 0.5 * (s.c + s.p)\<close>, and without it
  \<open>s.R * vpar * sv.R + wave_speed(i,j,k) * (s.R * sv.R - bndryval * vpar)\<close>. At the
  first point the left-face flux is the same with \<open>s.m\<close>, \<open>s.L\<close>, \<open>sv.L\<close> and
  the wave-speed term subtracted.
\<close>

theorem Div_par_fvv_boundary_flux:
  fixes cellboundary :: CellEdges
  shows
    "(lastY mesh i \<and> j = yend mesh \<and> \<not> periodicY mesh i \<longrightarrow>
      (let s = cellboundary (stencil f i j k);
           sv = cellboundary (stencil v i j k);
           vpar = 0.5 * (fdata v (i, j, k) + fdata v (i, j + 1, k));
           bndryval = 0.5 * (st_c s + st_p s)
       in flux_right cellboundary mesh f v wave_speed True i j k = bndryval * vpar * vpar
          \<and> flux_right cellboundary mesh f v wave_speed False i j k =
              st_R s * vpar * st_R sv
              + fdata wave_speed (i, j, k) * (st_R s * st_R sv - bndryval * vpar)))
     \<and>
     (firstY mesh i \<and> j = ystart mesh \<and> \<not> periodicY mesh i \<longrightarrow>
      (let s = cellboundary (stencil f i j k);
           sv = cellboundary (stencil v i j k);
           vpar = 0.5 * (fdata v (i, j, k) + fdata v (i, j - 1, k));
           bndryval = 0.5 * (st_c s + st_m s)
       in flux_left cellboundary mesh f v wave_speed True i j k = bndryval * vpar * vpar
          \<and> flux_left cellboundary mesh f v wave_speed False i j k =
              st_L s * vpar * st_L sv
              - fdata wave_speed (i, j, k) * (st_L s * st_L sv - bndryval * vpar)))"
proof (intro conjI impI)
  assume a: "lastY mesh i \<and> j = yend mesh \<and> \<not> periodicY mesh i"
  show "let s = cellboundary (stencil f i j k);
           sv = cellboundary (stencil v i j k);
           vpar = 0.5 * (fdata v (i, j, k) + fdata v (i, j + 1, k));
           bndryval = 0.5 * (st_c s + st_p s)
       in flux_right cellboundary mesh f v wave_speed True i j k = bndryval * vpar * vpar
          \<and> flux_right cellboundary mesh f v wave_speed False i j k =
              st_R s * vpar * st_R sv
              + fdata wave_speed (i, j, k) * (st_R s * st_R sv - bndryval * vpar)"
    unfolding flux_right_boundary[OF a] Let_def if_True if_False by (rule conjI; rule refl)
next
  assume a: "firstY mesh i \<and> j = ystart mesh \<and> \<not> periodicY mesh i"
  show "let s = cellboundary (stencil f i j k);
           sv = cellboundary (stencil v i j k);
           vpar = 0.5 * (fdata v (i, j, k) + fdata v (i, j - 1, k));
           bndryval = 0.5 * (st_c s + st_m s)
       in flux_left cellboundary mesh f v wave_speed True i j k = bndryval * vpar * vpar
          \<and> flux_left cellboundary mesh f v wave_speed False i j k =
              st_L s * vpar * st_L sv
              - fdata wave_speed (i, j, k) * (st_L s * st_L sv - bndryval * vpar)"
    unfolding flux_left_boundary[OF a] Let_def if_True if_False by (rule conjI; rule refl)
qed

text \<open>
  On the small mesh, with uniform \<open>f = 2\<close>, \<open>v = 3\<close> and wave speed \<open>1\<close>: at the last
  point \<open>y = 4\<close> the fixed flux is \<open>2 * 3 * 3\<close> and the other one
  \<open>2 * 3 * 3 + 1 * (2 * 3 - 2 * 3)\<close>, although the flow is supersonic there.
\<close>

theorem Div_par_fvv_boundary_flux_witness:
  "flux_right MC example_mesh (uniform_field 0 2) (uniform_field 0 3) (uniform_field 0 1) True 2 4 0 = 18
   \<and> flux_right MC example_mesh (uniform_field 0 2) (uniform_field 0 3) (uniform_field 0 1) False 2 4 0 = 18
   \<and> flux_left MC example_mesh (uniform_field 0 2) (uniform_field 0 3) (uniform_field 0 1) True 2 2 1 = 18
   \<and> flux_left MC example_mesh (uniform_field 0 2) (uniform_field 0 3) (uniform_field 0 1) False 2 2 1 = 18"
proof -
  have r: "lastY example_mesh 2 \<and> (4::int) = yend example_mesh \<and> \<not> periodicY example_mesh 2"
    by (simp add: example_mesh_def)
  have l: "firstY example_mesh 2 \<and> (2::int) = ystart example_mesh \<and> \<not> periodicY example_mesh 2"
    by (simp add: example_mesh_def)
  have d: "fdata (uniform_field 0 a) = (\<lambda>d. a)" for a by (simp add: uniform_field_def)
  show ?thesis
    using Div_par_fvv_boundary_flux
       [of example_mesh 2 4 MC "uniform_field 0 2" 0 "uniform_field 0 3" "uniform_field 0 1"]
      Div_par_fvv_boundary_flux
       [of example_mesh 2 2 MC "uniform_field 0 2" 1 "uniform_field 0 3" "uniform_field 0 1"]
       r l
    by (simp add: Let_def MC_uniform d)
qed

text \<open>
  Claim C9. \<open>Div_par_fvv\<close> checks that the velocity and the wave speed are each
  compatible with \<open>f\<close> before anything else. It fails with
  \<open>IncompatibleFieldsError\<close> exactly when one of the two checks fails, and returns a
  field exactly when both hold.
\<close>

theorem Div_par_fvv_incompatible_fields:
  "(Div_par_fvv cellboundary mesh coord f_in v_in wave_speed_in fixflux = Inl IncompatibleFieldsError)
     = (\<not> (areFieldsCompatible f_in v_in \<and> areFieldsCompatible f_in wave_speed_in))
   \<and> (\<exists>r. Div_par_fvv cellboundary mesh coord f_in v_in wave_speed_in fixflux = Inr r)
     = (areFieldsCompatible f_in v_in \<and> areFieldsCompatible f_in wave_speed_in)"
  by (auto simp add: Div_par_fvv_def Let_def)

theorem Div_par_fvv_incompatible_fields_witness:
  "Div_par_fvv MC example_mesh example_coord (uniform_field 0 1) (uniform_field 1 1) (uniform_field 0 1) True
     = Inl IncompatibleFieldsError
   \<and> Div_par_fvv MC example_mesh example_coord (uniform_field 0 1) (uniform_field 0 1) (uniform_field 1 1) False
     = Inl IncompatibleFieldsError
   \<and> (\<exists>r. Div_par_fvv MC example_mesh example_coord (uniform_field 0 1) (uniform_field 0 1) (uniform_field 0 1) False
     = Inr r)"
  using Div_par_fvv_incompatible_fields
      [of MC example_mesh example_coord "uniform_field 0 1" "uniform_field 1 1" "uniform_field 0 1" True]
    Div_par_fvv_incompatible_fields
      [of MC example_mesh example_coord "uniform_field 0 1" "uniform_field 0 1" "uniform_field 1 1" False]
    Div_par_fvv_incompatible_fields
      [of MC example_mesh example_coord "uniform_field 0 1" "uniform_field 0 1" "uniform_field 0 1" False]
  by (simp add: areFieldsCompatible_def uniform_field_def)


section \<open>The low-density regularisation\<close>

lemma clamp_cell:
  "fdata (clamp var lo hi) d =
     (if fdata var d < lo then lo else if fdata var d > hi then hi else fdata var d)"
  by (simp add: clamp_def)

lemma low_n_log_factor_cell:
  "fdata (low_n_log_factor floor_val n) d =
     ln (floor_val / fdata (clamp n (0.000001 * floor_val) floor_val) d)"
  by (simp add: low_n_log_factor_def fmap_def)

lemma clamp_bounds:
  assumes "lo \<le> hi"
  shows "lo \<le> fdata (clamp var lo hi) d \<and> fdata (clamp var lo hi) d \<le> hi"
  using assms by (simp add: clamp_cell)

lemma clamp_mono:
  assumes "lo \<le> hi" and "fdata a d \<le> fdata b d'"
  shows "fdata (clamp a lo hi) d \<le> fdata (clamp b lo hi) d'"
  using assms by (simp add: clamp_cell)

lemma log_factor_antimono:
  fixes floor_val x y :: real
  assumes "0 < floor_val" "0 < x" "x \<le> y"
  shows "ln (floor_val / y) \<le> ln (floor_val / x)"
proof -
  have "floor_val / y \<le> floor_val / x"
    using assms by (simp add: frac_le)
  moreover have "0 < floor_val / y" using assms by simp
  ultimately show ?thesis by simp
qed

lemma log_factor_strict:
  fixes floor_val x y :: real
  assumes "0 < floor_val" "0 < x" "x < y"
  shows "ln (floor_val / y) < ln (floor_val / x)"
proof -
  have "floor_val / y < floor_val / x"
    using assms by (simp add: frac_less2)
  moreover have "0 < floor_val / y" using assms by simp
  ultimately show ?thesis by simp
qed

text \<open>
  Claim C4, as amended. For a positive density floor and any cell value, the clamped
  value lies between \<open>1e-6 * density_floor\<close> and \<open>density_floor\<close>, so the argument
  of the logarithm lies between \<open>1\<close> and \<open>1e6\<close>. The factor
  \<open>log(density_floor / clamp(n, ...))\<close> does not increase when \<open>n\<close> increases; it
  increases strictly as \<open>n\<close> decreases from the floor down to
  \<open>1e-6 * density_floor\<close>, stays at \<open>log(1e6)\<close> for every \<open>n\<close> at or below
  \<open>1e-6 * density_floor\<close>, and is exactly \<open>0\<close> for every \<open>n\<close> at or above the
  floor.
\<close>

theorem low_n_log_factor_properties:
  assumes pos: "0 < floor_val"
  shows
    "0.000001 * floor_val \<le> fdata (clamp n (0.000001 * floor_val) floor_val) d
     \<and> fdata (clamp n (0.000001 * floor_val) floor_val) d \<le> floor_val
     \<and> 1 \<le> floor_val / fdata (clamp n (0.000001 * floor_val) floor_val) d
     \<and> floor_val / fdata (clamp n (0.000001 * floor_val) floor_val) d \<le> 1000000
     \<and> (fdata n d \<le> fdata n' d' \<longrightarrow>
          fdata (low_n_log_factor floor_val n') d' \<le> fdata (low_n_log_factor floor_val n) d)
     \<and> (0.000001 * floor_val \<le> fdata n d \<and> fdata n d < fdata n' d' \<and> fdata n' d' \<le> floor_val \<longrightarrow>
          fdata (low_n_log_factor floor_val n') d' < fdata (low_n_log_factor floor_val n) d)
     \<and> (fdata n d \<le> 0.000001 * floor_val \<longrightarrow>
          fdata (low_n_log_factor floor_val n) d = ln 1000000)
     \<and> (fdata n d \<ge> floor_val \<longrightarrow> fdata (low_n_log_factor floor_val n) d = 0)"
proof -
  let ?lo = "0.000001 * floor_val"
  let ?cl = "\<lambda>a e. fdata (clamp a ?lo floor_val) e"
  have lohi: "?lo \<le> floor_val" and lopos: "0 < ?lo"
    using pos by simp_all
  have b: "?lo \<le> ?cl a e \<and> ?cl a e \<le> floor_val" for a e
    by (rule clamp_bounds[OF lohi])
  have cpos: "0 < ?cl a e" for a e
    using b[of a e] lopos by linarith
  have lower: "1 \<le> floor_val / ?cl n d"
    using b[of n d] cpos[of n d] by (simp add: le_divide_eq)
  have upper: "floor_val / ?cl n d \<le> 1000000"
  proof -
    have "floor_val \<le> 1000000 * ?lo" by simp
    also have "\<dots> \<le> 1000000 * ?cl n d" using b[of n d] by simp
    finally show ?thesis using cpos[of n d] by (simp add: divide_le_eq)
  qed
  have mono: "fdata (low_n_log_factor floor_val n') d' \<le> fdata (low_n_log_factor floor_val n) d"
    if "fdata n d \<le> fdata n' d'"
    unfolding low_n_log_factor_cell
    by (rule log_factor_antimono[OF pos cpos clamp_mono[OF lohi that]])
  have strict: "fdata (low_n_log_factor floor_val n') d' < fdata (low_n_log_factor floor_val n) d"
    if "?lo \<le> fdata n d \<and> fdata n d < fdata n' d' \<and> fdata n' d' \<le> floor_val"
  proof -
    have "?cl n d = fdata n d" "?cl n' d' = fdata n' d'"
      using that by (simp_all add: clamp_cell)
    then have "?cl n d < ?cl n' d'" using that by simp
    then show ?thesis
      unfolding low_n_log_factor_cell by (rule log_factor_strict[OF pos cpos])
  qed
  have sat: "fdata (low_n_log_factor floor_val n) d = ln 1000000"
    if "fdata n d \<le> ?lo"
  proof -
    have eq: "?cl n d = ?lo" using that lohi by (simp add: clamp_cell)
    have "floor_val / ?lo = 1000000" using pos by simp
    then have "floor_val / ?cl n d = 1000000" by (simp only: eq)
    then show ?thesis unfolding low_n_log_factor_cell by (simp only:)
  qed
  have zero: "fdata (low_n_log_factor floor_val n) d = 0"
    if "fdata n d \<ge> floor_val"
  proof -
    have "?cl n d = floor_val" using that lohi pos by (simp add: clamp_cell)
    then show ?thesis unfolding low_n_log_factor_cell using pos by simp
  qed
  from b[of n d] lower upper mono strict sat zero show ?thesis by blast
qed

text \<open>
  The factor at \<open>n = 1e-4\<close> and \<open>n = 1e-3\<close> below the floor \<open>1\<close>, at \<open>n = 1e-8\<close>
  below the lower clamp bound, and at \<open>n = 2\<close> above the floor.
\<close>

theorem low_n_log_factor_properties_witness:
  "fdata (low_n_log_factor 1 (uniform_field 0 (1 / 10 ^ 3))) (0, 0, 0)
      < fdata (low_n_log_factor 1 (uniform_field 0 (1 / 10 ^ 4))) (0, 0, 0)
   \<and> fdata (low_n_log_factor 1 (uniform_field 0 (1 / 10 ^ 8))) (0, 0, 0) = ln 1000000
   \<and> fdata (low_n_log_factor 1 (uniform_field 0 2)) (0, 0, 0) = 0"
proof -
  have p: "(0::real) < 1" by simp
  have d: "fdata (uniform_field 0 a) e = a" for a e by (simp add: uniform_field_def)
  show ?thesis
    using low_n_log_factor_properties[OF p, of "uniform_field 0 (1 / 10 ^ 4)" "(0, 0, 0)"
            "uniform_field 0 (1 / 10 ^ 3)" "(0, 0, 0)"]
          low_n_log_factor_properties[OF p, of "uniform_field 0 (1 / 10 ^ 8)" "(0, 0, 0)"
            "uniform_field 0 (1 / 10 ^ 8)" "(0, 0, 0)"]
          low_n_log_factor_properties[OF p, of "uniform_field 0 2" "(0, 0, 0)"
            "uniform_field 0 2" "(0, 0, 0)"]
    by (simp add: d)
qed

text \<open>
  The claim as stated asks for a strict increase all the way down to zero. Below the
  lower clamp bound the factor no longer changes: with floor \<open>1\<close> it has the same
  value at \<open>n = 1e-8\<close> and at \<open>n = 1e-7\<close>.
\<close>

theorem low_n_log_factor_saturates_counterexample:
  "\<not> (fdata (low_n_log_factor 1 (uniform_field 0 (1 / 10 ^ 8))) (0, 0, 0)
        > fdata (low_n_log_factor 1 (uniform_field 0 (1 / 10 ^ 7))) (0, 0, 0))"
  by (simp add: low_n_log_factor_cell clamp_cell uniform_field_def)

section \<open>The two components\<close>

lemma get_simps [simp]:
  "get None = Inl MissingStateFieldError" "get (Some x) = Inr x"
  by (simp_all add: get_def)

lemma get_eq_Inl [simp]: "(get x = Inl e) = (x = None \<and> e = MissingStateFieldError)"
  by (cases x) (auto simp add: get_def)

lemma get_eq_Inr [simp]: "(get x = Inr y) = (x = Some y)"
  by (cases x) (auto simp add: get_def)

lemma typical_sound_speed_set:
  "typical_sound_speed (state\<lparr>sound_speed := Some val\<rparr>) sp = Inr None"
  by (simp add: typical_sound_speed_def)

lemma phi_isSet_sound_speed [simp]:
  "phi_isSet (state\<lparr>sound_speed := x\<rparr>) = phi_isSet state"
  by (simp add: phi_isSet_def)

lemma get_phi_sound_speed [simp]:
  "get_phi (state\<lparr>sound_speed := x\<rparr>) = get_phi state"
  by (simp add: get_phi_def)

lemma density_wave_speed_set:
  "density_wave_speed fw (state\<lparr>sound_speed := Some val\<rparr>) sp =
     (if phi_isSet state then Inl EmptyDataError else Inr None)"
  by (simp add: density_wave_speed_def typical_sound_speed_set)

lemma density_wave_speed_from_temperature:
  assumes "sound_speed state = None" and "temperature sp = Some T"
  shows "density_wave_speed fw state sp =
     Inr (Some (if phi_isSet state
                then fmap (\<lambda>x. sqrt (SI_Me fw / SI_Mp fw) * x) (fmap sqrt T)
                else fmap sqrt T))"
  using assms by (simp add: density_wave_speed_def typical_sound_speed_def)

lemma EvolveDensity_finally_sound_speed:
  "EvolveDensity_finally fw coord self (state\<lparr>sound_speed := Some val\<rparr>) =
   EvolveDensity_finally fw coord self (state\<lparr>sound_speed := Some val'\<rparr>)"
  unfolding EvolveDensity_finally_def
  by (simp add: density_wave_speed_set cong: option.case_cong sum.case_cong if_cong)

lemma EvolveDensity_finally_state_sound_speed_fails:
  assumes "species state (ed_name self) = Some sp"
      and "density sp = Some n"
      and "velocity sp = Some v"
      and "sound_speed state = Some val"
  shows "EvolveDensity_finally fw coord self state = Inl EmptyDataError"
proof -
  have ws: "density_wave_speed fw state sp = (if phi_isSet state then Inl EmptyDataError else Inr None)"
    using assms(4) by (simp add: density_wave_speed_def typical_sound_speed_def)
  show ?thesis
  proof (cases "phi_isSet state")
    case True
    then obtain phi_val where "get_phi state = Inr phi_val"
      by (auto simp add: phi_isSet_def get_phi_def split: option.splits)
    with True assms ws show ?thesis
      by (simp add: EvolveDensity_finally_def)
  next
    case False
    with assms ws show ?thesis
      by (simp add: EvolveDensity_finally_def)
  qed
qed

text \<open>
  Claim C2, the part that the code does not do. When the state has \<open>sound_speed\<close>
  set, the wave speed handed to \<open>FV::Div_par\<close> is the outer variable, which has no
  data, whatever field the state supplies: the value read from the state goes to an
  inner variable of the same name. With the potential set, the product with
  \<open>sqrt(Me/Mp)\<close> already fails on it. Hence \<open>finally\<close> gives the same result for
  any two supplied sound-speed fields.
\<close>

theorem EvolveDensity_wave_speed_ignores_state_sound_speed:
  "density_wave_speed fw (state\<lparr>sound_speed := Some val\<rparr>) sp =
     (if phi_isSet state then Inl EmptyDataError else Inr None)
   \<and> EvolveDensity_finally fw coord self (state\<lparr>sound_speed := Some val\<rparr>) =
     EvolveDensity_finally fw coord self (state\<lparr>sound_speed := Some val'\<rparr>)"
  using density_wave_speed_set EvolveDensity_finally_sound_speed by blast


lemma fdata_fmap [simp]: "fdata (fmap g a) d = g (fdata a d)"
  by (simp add: fmap_def)

lemma fdata_fmap2 [simp]: "fdata (fmap2 g a b) d = g (fdata a d) (fdata b d)"
  by (simp add: fmap2_def)

text \<open>
  Claim C5. With the low-density diffusion terms, the hyper-diffusion and the
  logarithmic mode switched off, on a state that holds the density of the species (as
  \<open>transform\<close> publishes it) and neither its velocity, nor a potential, nor a
  density source, \<open>finally\<close> returns and leaves in \<open>ddt(N)\<close> the configured source,
  in every cell. The pressure is never read.
\<close>

theorem EvolveDensity_finally_source_only:
  assumes "species state (ed_name self) = Some sp"
      and "density sp = Some n"
      and "velocity sp = None"
      and "\<not> phi_isSet state"
      and "density_source sp = None"
      and "\<not> ed_low_n_diffuse self"
      and "\<not> ed_low_n_diffuse_perp self"
      and "\<not> ed_hyper_z self"
      and "\<not> ed_evolve_log self"
  shows "\<exists>self'. EvolveDensity_finally fw coord self state = Inr self'
           \<and> (\<forall>d. fdata (ed_ddt_N self') d = fdata (ed_source self) d)"
  using assms by (simp add: EvolveDensity_finally_def Let_def)

text \<open>
  The example component after its own \<open>transform\<close> on the empty state: the source
  is \<open>7\<close> in every cell, and so is \<open>ddt(N)\<close>, although it held \<open>5\<close> before.
\<close>

theorem EvolveDensity_finally_source_only_witness:
  "\<exists>self'. EvolveDensity_finally example_fw example_coord example_density
              (snd (EvolveDensity_transform example_fw example_density example_state)) = Inr self'
           \<and> (\<forall>d. fdata (ed_ddt_N self') d = 7)"
proof -
  let ?st = "snd (EvolveDensity_transform example_fw example_density example_state)"
  let ?sp = "\<lparr>density = Some (uniform_field 0 2), velocity = None, temperature = None,
              pressure = None, momentum = None, density_source = None, momentum_source = None,
              AA = Some (1 / 1836), charge = Some (- 1)\<rparr>"
  have sp: "species ?st (ed_name example_density) = Some ?sp"
    by (simp add: EvolveDensity_transform_def example_density_def example_state_def
          example_fw_def unset_species_def Let_def)
  have phi: "\<not> phi_isSet ?st"
    by (simp add: EvolveDensity_transform_def example_state_def phi_isSet_def Let_def)
  have "\<exists>self'. EvolveDensity_finally example_fw example_coord example_density ?st = Inr self'
           \<and> (\<forall>d. fdata (ed_ddt_N self') d = fdata (ed_source example_density) d)"
    by (rule EvolveDensity_finally_source_only[OF sp _ _ phi])
       (simp_all add: example_density_def)
  then show ?thesis
    by (simp add: example_density_def uniform_field_def)
qed


lemma Div_par_fvv_compatible:
  assumes "areFieldsCompatible f_in v_in" and "areFieldsCompatible f_in wave_speed_in"
  shows "Div_par_fvv cellboundary mesh coord f_in v_in wave_speed_in fixflux =
     Inr (fromFieldAligned coord
            ((zeroFrom (toFieldAligned coord f_in ''RGN_NOX''))\<lparr>fdata :=
               accumulate_fluxes cellboundary mesh coord
                 (toFieldAligned coord f_in ''RGN_NOX'') (toFieldAligned coord v_in ''RGN_NOX'')
                 (toFieldAligned coord wave_speed_in ''RGN_NOX'') fixflux
                 (fdata (zeroFrom (toFieldAligned coord f_in ''RGN_NOX'')))\<rparr>)
            ''RGN_NOBNDRY'')"
  using assms by (simp add: Div_par_fvv_def Let_def)

lemma phi_isSet_get_phi:
  "phi_isSet state \<Longrightarrow> \<exists>sec phi_val. fields_section state = Some sec \<and> phi sec = Some phi_val
      \<and> get_phi state = Inr phi_val"
  by (auto simp add: phi_isSet_def get_phi_def split: option.splits)

text \<open>
  Claim C8. On a state that holds the density and the velocity of the species,
  \<open>EvolveMomentum::finally\<close> behaves in one of two ways. When the typical wave
  speed has data (the state has no \<open>sound_speed\<close> and the species has a
  temperature) and the flux operator accepts the fields, \<open>ddt(NV)\<close> is, in every
  cell: minus the ExB divergence of \<open>NV\<close> when the potential is set and zero
  otherwise; minus the result of \<open>Div_par_fvv\<close> called with \<open>fixflux = false\<close>;
  minus \<open>Grad_par(P)\<close> exactly when a pressure is set; plus the momentum source
  exactly when one is set. When the state has \<open>sound_speed\<close> set, the wave speed
  handed to \<open>Div_par_fvv\<close> has no data and the call fails: no \<open>ddt(NV)\<close> is
  computed.
\<close>

theorem EvolveMomentum_finally_terms:
  assumes "species state (em_name self) = Some sp"
      and "density sp = Some n"
      and "velocity sp = Some v"
  shows "(\<forall>wave_speed flux_div.
            typical_sound_speed state sp = Inr (Some wave_speed)
            \<and> Div_par_fvv MC mesh coord n v wave_speed False = Inr flux_div \<longrightarrow>
            (\<exists>self'. EvolveMomentum_finally fw mesh coord self state = Inr self'
               \<and> (\<forall>d. fdata (em_ddt_NV self') d =
                     (case fields_section state of
                        None \<Rightarrow> 0
                      | Some sec \<Rightarrow>
                         (case phi sec of
                            None \<Rightarrow> 0
                          | Some phi_val \<Rightarrow>
                              - fdata (Div_n_bxGrad_f_B_XPPM fw (em_NV self) phi_val
                                         (em_bndry_flux self) (em_poloidal_flows self) True) d))
                     - fdata flux_div d
                     - (case pressure sp of None \<Rightarrow> 0 | Some P \<Rightarrow> fdata (Grad_par fw P) d)
                     + (case momentum_source sp of None \<Rightarrow> 0 | Some src \<Rightarrow> fdata src d))))
       \<and> (sound_speed state \<noteq> None \<longrightarrow>
            EvolveMomentum_finally fw mesh coord self state
              = Inl (if areFieldsCompatible n v then EmptyDataError else IncompatibleFieldsError))"
proof (intro conjI allI impI)
  fix wave_speed flux_div
  assume h: "typical_sound_speed state sp = Inr (Some wave_speed)
            \<and> Div_par_fvv MC mesh coord n v wave_speed False = Inr flux_div"
  show "\<exists>self'. EvolveMomentum_finally fw mesh coord self state = Inr self'
               \<and> (\<forall>d. fdata (em_ddt_NV self') d =
                     (case fields_section state of
                        None \<Rightarrow> 0
                      | Some sec \<Rightarrow>
                         (case phi sec of
                            None \<Rightarrow> 0
                          | Some phi_val \<Rightarrow>
                              - fdata (Div_n_bxGrad_f_B_XPPM fw (em_NV self) phi_val
                                         (em_bndry_flux self) (em_poloidal_flows self) True) d))
                     - fdata flux_div d
                     - (case pressure sp of None \<Rightarrow> 0 | Some P \<Rightarrow> fdata (Grad_par fw P) d)
                     + (case momentum_source sp of None \<Rightarrow> 0 | Some src \<Rightarrow> fdata src d))"
  proof (cases "phi_isSet state")
    case True
    then obtain sec phi_val where "fields_section state = Some sec" "phi sec = Some phi_val"
        "get_phi state = Inr phi_val"
      using phi_isSet_get_phi by blast
    with True assms h show ?thesis
      by (simp add: EvolveMomentum_finally_def Let_def split: option.splits)
  next
    case False
    then have "fields_section state = None
               \<or> (\<exists>sec. fields_section state = Some sec \<and> phi sec = None)"
      by (auto simp add: phi_isSet_def split: option.splits)
    with False assms h show ?thesis
      by (auto simp add: EvolveMomentum_finally_def Let_def split: option.splits)
  qed
next
  assume "sound_speed state \<noteq> None"
  then have ws: "typical_sound_speed state sp = Inr None"
    by (auto simp add: typical_sound_speed_def)
  show "EvolveMomentum_finally fw mesh coord self state
          = Inl (if areFieldsCompatible n v then EmptyDataError else IncompatibleFieldsError)"
  proof (cases "phi_isSet state")
    case True
    then obtain phi_val where "get_phi state = Inr phi_val"
      using phi_isSet_get_phi by blast
    with True assms ws show ?thesis
      by (simp add: EvolveMomentum_finally_def)
  next
    case False
    with assms ws show ?thesis
      by (simp add: EvolveMomentum_finally_def)
  qed
qed

text \<open>
  On the complete example state (no potential, no \<open>sound_speed\<close>, temperature
  \<open>4\<close>, pressure \<open>8\<close>, momentum source \<open>1\<close>) the flux operator accepts the fields
  and \<open>ddt(NV)\<close> is \<open>0 - flux - 8 + 1\<close> in every cell. On the same state with
  \<open>sound_speed\<close> set to the field \<open>2\<close> the call fails on the wave speed without
  data.
\<close>

theorem EvolveMomentum_finally_terms_witness:
  "(\<exists>self' flux_div.
      Div_par_fvv MC example_mesh example_coord (uniform_field 0 2) (uniform_field 0 3)
        (fmap sqrt (uniform_field 0 4)) False = Inr flux_div
    \<and> EvolveMomentum_finally example_fw example_mesh example_coord example_momentum
        example_state_full = Inr self'
    \<and> (\<forall>d. fdata (em_ddt_NV self') d = 0 - fdata flux_div d - 8 + 1))
   \<and> EvolveMomentum_finally example_fw example_mesh example_coord example_momentum
        (example_state_full\<lparr>sound_speed := Some (uniform_field 0 2)\<rparr>) = Inl EmptyDataError"
proof -
  let ?st = "example_state_full\<lparr>sound_speed := Some (uniform_field 0 2)\<rparr>"
  have sp: "species example_state_full (em_name example_momentum) = Some example_species"
    and sp': "species ?st (em_name example_momentum) = Some example_species"
    by (simp_all add: example_state_full_def example_momentum_def)
  have n: "density example_species = Some (uniform_field 0 2)"
    and v: "velocity example_species = Some (uniform_field 0 3)"
    by (simp_all add: example_species_def)
  have ws: "typical_sound_speed example_state_full example_species
              = Inr (Some (fmap sqrt (uniform_field 0 4)))"
    by (simp add: typical_sound_speed_def example_state_full_def example_species_def)
  have c1: "areFieldsCompatible (uniform_field 0 2) (uniform_field 0 3)"
    and c2: "areFieldsCompatible (uniform_field 0 2) (fmap sqrt (uniform_field 0 4))"
    by (simp_all add: areFieldsCompatible_def uniform_field_def fmap_def)
  note fl = Div_par_fvv_compatible[OF c1 c2, where cellboundary = MC and mesh = example_mesh
               and coord = example_coord and fixflux = False]
  note t = EvolveMomentum_finally_terms[OF sp n v, where fw = example_fw and mesh = example_mesh
               and coord = example_coord]
  note t' = EvolveMomentum_finally_terms[OF sp' n v, where fw = example_fw and mesh = example_mesh
               and coord = example_coord]
  from t ws fl have
    "\<exists>self'. EvolveMomentum_finally example_fw example_mesh example_coord example_momentum
                example_state_full = Inr self'
       \<and> (\<forall>d. fdata (em_ddt_NV self') d =
             (case fields_section example_state_full of
                None \<Rightarrow> 0
              | Some sec \<Rightarrow>
                 (case phi sec of
                    None \<Rightarrow> 0
                  | Some phi_val \<Rightarrow>
                      - fdata (Div_n_bxGrad_f_B_XPPM example_fw (em_NV example_momentum) phi_val
                                 (em_bndry_flux example_momentum)
                                 (em_poloidal_flows example_momentum) True) d))
             - fdata (fromFieldAligned example_coord
                  ((zeroFrom (toFieldAligned example_coord (uniform_field 0 2) ''RGN_NOX''))\<lparr>fdata :=
                     accumulate_fluxes MC example_mesh example_coord
                       (toFieldAligned example_coord (uniform_field 0 2) ''RGN_NOX'')
                       (toFieldAligned example_coord (uniform_field 0 3) ''RGN_NOX'')
                       (toFieldAligned example_coord (fmap sqrt (uniform_field 0 4)) ''RGN_NOX'') False
                       (fdata (zeroFrom (toFieldAligned example_coord (uniform_field 0 2) ''RGN_NOX'')))\<rparr>)
                  ''RGN_NOBNDRY'') d
             - (case pressure example_species of None \<Rightarrow> 0
                | Some P \<Rightarrow> fdata (Grad_par example_fw P) d)
             + (case momentum_source example_species of None \<Rightarrow> 0 | Some src \<Rightarrow> fdata src d))"
    by blast
  then have first: "\<exists>self' flux_div.
      Div_par_fvv MC example_mesh example_coord (uniform_field 0 2) (uniform_field 0 3)
        (fmap sqrt (uniform_field 0 4)) False = Inr flux_div
    \<and> EvolveMomentum_finally example_fw example_mesh example_coord example_momentum
        example_state_full = Inr self'
    \<and> (\<forall>d. fdata (em_ddt_NV self') d = 0 - fdata flux_div d - 8 + 1)"
    unfolding fl
    by (simp add: example_state_full_def example_species_def example_fw_def uniform_field_def)
  have "sound_speed ?st \<noteq> None" by simp
  with t' c1 have second:
    "EvolveMomentum_finally example_fw example_mesh example_coord example_momentum ?st
       = Inl EmptyDataError"
    by simp
  from first second show ?thesis by blast
qed

text \<open>
  Claim C10. The momentum component needs the density, the velocity and the atomic
  mass. \<open>transform\<close> fails when the species has no density or no atomic mass
  published. \<open>finally\<close> fails when the species has no density or no velocity, or
  when neither the state's \<open>sound_speed\<close> nor the species temperature is set. The
  density component returns from \<open>finally\<close> when the velocity is absent.
\<close>

theorem EvolveMomentum_required_fields:
  "(species state (em_name self) = None
      \<longrightarrow> EvolveMomentum_transform fw self state = Inl MissingStateFieldError)
   \<and> (\<forall>sp. species state (em_name self) = Some sp \<and> (density sp = None \<or> AA sp = None)
      \<longrightarrow> EvolveMomentum_transform fw self state = Inl MissingStateFieldError)
   \<and> (species state (em_name self) = None
      \<longrightarrow> EvolveMomentum_finally fw mesh coord self state = Inl MissingStateFieldError)
   \<and> (\<forall>sp. species state (em_name self) = Some sp
            \<and> (density sp = None \<or> velocity sp = None
                \<or> (sound_speed state = None \<and> temperature sp = None))
      \<longrightarrow> EvolveMomentum_finally fw mesh coord self state = Inl MissingStateFieldError)
   \<and> (\<forall>sp n. species state (ed_name dself) = Some sp \<and> density sp = Some n \<and> velocity sp = None
      \<longrightarrow> (\<exists>dself'. EvolveDensity_finally fw coord dself state = Inr dself'))"
proof (intro conjI allI impI)
  assume "species state (em_name self) = None"
  then show "EvolveMomentum_transform fw self state = Inl MissingStateFieldError"
    by (simp add: EvolveMomentum_transform_def Let_def unset_species_def)
next
  fix sp
  assume "species state (em_name self) = Some sp \<and> (density sp = None \<or> AA sp = None)"
  then show "EvolveMomentum_transform fw self state = Inl MissingStateFieldError"
    by (auto simp add: EvolveMomentum_transform_def Let_def split: sum.splits option.splits)
next
  assume "species state (em_name self) = None"
  then show "EvolveMomentum_finally fw mesh coord self state = Inl MissingStateFieldError"
    by (simp add: EvolveMomentum_finally_def)
next
  fix sp
  assume a: "species state (em_name self) = Some sp
            \<and> (density sp = None \<or> velocity sp = None
                \<or> (sound_speed state = None \<and> temperature sp = None))"
  have ph: "phi_isSet state \<Longrightarrow> \<exists>phi_val. get_phi state = Inr phi_val"
    using phi_isSet_get_phi by blast
  from a ph show "EvolveMomentum_finally fw mesh coord self state = Inl MissingStateFieldError"
    by (auto simp add: EvolveMomentum_finally_def typical_sound_speed_def Let_def
          split: sum.splits option.splits)
next
  fix sp n
  assume a: "species state (ed_name dself) = Some sp \<and> density sp = Some n \<and> velocity sp = None"
  have ph: "phi_isSet state \<Longrightarrow> \<exists>phi_val. get_phi state = Inr phi_val"
    using phi_isSet_get_phi by blast
  from a ph show "\<exists>dself'. EvolveDensity_finally fw coord dself state = Inr dself'"
    by (auto simp add: EvolveDensity_finally_def Let_def split: sum.splits option.splits)
qed

text \<open>
  On the empty state \<open>transform\<close> of the momentum component fails. After the density
  component's \<open>transform\<close> alone (no velocity published), \<open>finally\<close> of the
  momentum component fails and \<open>finally\<close> of the density component returns.
\<close>

theorem EvolveMomentum_required_fields_witness:
  "EvolveMomentum_transform example_fw example_momentum example_state = Inl MissingStateFieldError
   \<and> EvolveMomentum_finally example_fw example_mesh example_coord example_momentum
        (snd (EvolveDensity_transform example_fw example_density example_state))
      = Inl MissingStateFieldError
   \<and> (\<exists>dself'. EvolveDensity_finally example_fw example_coord example_density
        (snd (EvolveDensity_transform example_fw example_density example_state)) = Inr dself')"
proof -
  let ?st = "snd (EvolveDensity_transform example_fw example_density example_state)"
  let ?sp = "\<lparr>density = Some (uniform_field 0 2), velocity = None, temperature = None,
              pressure = None, momentum = None, density_source = None, momentum_source = None,
              AA = Some (1 / 1836), charge = Some (- 1)\<rparr>"
  have e: "species example_state (em_name example_momentum) = None"
    by (simp add: example_state_def)
  have sp: "species ?st (em_name example_momentum) = Some ?sp"
    "species ?st (ed_name example_density) = Some ?sp"
    by (simp_all add: EvolveDensity_transform_def example_density_def example_state_def
          example_fw_def unset_species_def Let_def example_momentum_def)
  show ?thesis
    using EvolveMomentum_required_fields
            [of example_state example_momentum example_fw example_mesh example_coord example_density]
          EvolveMomentum_required_fields
            [of ?st example_momentum example_fw example_mesh example_coord example_density]
          e sp
    by simp
qed

section \<open>No flux without flow\<close>

lemma cell_update_no_flux:
  assumes "flux_right cellboundary mesh f v wave_speed fixflux i j k = 0"
      and "flux_left cellboundary mesh f v wave_speed fixflux i j k = 0"
  shows "cell_update cellboundary mesh coord f v wave_speed fixflux i j k result = result"
  using assms by (simp add: cell_update_def Let_def)

lemma accumulate_no_flux:
  assumes "\<And>i j k. flux_right cellboundary mesh f v wave_speed fixflux i j k = 0"
      and "\<And>i j k. flux_left cellboundary mesh f v wave_speed fixflux i j k = 0"
  shows "accumulate_fluxes cellboundary mesh coord f v wave_speed fixflux result = result"
proof -
  have cu: "cell_update cellboundary mesh coord f v wave_speed fixflux i j k = id" for i j k
    by (rule ext) (simp add: cell_update_no_flux assms)
  have kl: "fold (\<lambda>k. cell_update cellboundary mesh coord f v wave_speed fixflux i j k) ks = id"
    for i j ks
    by (rule fold_id) (simp add: cu)
  have jl: "fold (\<lambda>j. fold (\<lambda>k. cell_update cellboundary mesh coord f v wave_speed fixflux i j k)
                          (ks j)) js = id"
    for i js and ks :: "int \<Rightarrow> int list"
    by (rule fold_id) (simp add: kl)
  have il: "fold (\<lambda>i. fold (\<lambda>j. fold (\<lambda>k. cell_update cellboundary mesh coord f v wave_speed fixflux i j k)
                          (ks i j)) (js i)) is = id"
    for "is" and js :: "int \<Rightarrow> int list" and ks :: "int \<Rightarrow> int \<Rightarrow> int list"
    by (rule fold_id) (simp add: jl)
  show ?thesis
    unfolding accumulate_fluxes_def by (simp add: il)
qed

lemma zero_velocity_no_flux:
  assumes v0: "\<forall>d. fdata v d = 0"
      and faces: "st_R (cellboundary \<lparr>st_c = 0, st_m = 0, st_p = 0, st_L = 0, st_R = 0\<rparr>) = 0"
                 "st_L (cellboundary \<lparr>st_c = 0, st_m = 0, st_p = 0, st_L = 0, st_R = 0\<rparr>) = 0"
  shows "flux_right cellboundary mesh f v wave_speed fixflux i j k = 0"
    and "flux_left cellboundary mesh f v wave_speed fixflux i j k = 0"
proof -
  have sv: "stencil v i j k = \<lparr>st_c = 0, st_m = 0, st_p = 0, st_L = 0, st_R = 0\<rparr>"
    using v0 by (simp add: stencil_def)
  show "flux_right cellboundary mesh f v wave_speed fixflux i j k = 0"
    unfolding flux_right_def Let_def sv using v0 faces by simp
  show "flux_left cellboundary mesh f v wave_speed fixflux i j k = 0"
    unfolding flux_left_def Let_def sv using v0 faces by simp
qed

text \<open>
  Claim C6. For a velocity that is zero in every cell, \<open>Div_par_fvv\<close> returns a
  field that is zero in every interior cell, for both values of \<open>fixflux\<close>, for
  every \<open>f\<close> (uniform or not) and every wave speed. The fields must be compatible,
  the reconstruction must give zero faces on a stencil of zeros (as every limiter
  does), and the parallel transforms must take the zero field to a field that is zero
  (in the interior, for the transform back).
\<close>

theorem Div_par_fvv_zero_velocity:
  assumes compat: "areFieldsCompatible f_in v_in" "areFieldsCompatible f_in wave_speed_in"
      and v0: "\<forall>d. fdata v_in d = 0"
      and faces: "st_R (cellboundary \<lparr>st_c = 0, st_m = 0, st_p = 0, st_L = 0, st_R = 0\<rparr>) = 0"
                 "st_L (cellboundary \<lparr>st_c = 0, st_m = 0, st_p = 0, st_L = 0, st_R = 0\<rparr>) = 0"
      and to_aligned: "\<forall>g. (\<forall>d. fdata g d = 0) \<longrightarrow>
                         (\<forall>d. fdata (toFieldAligned coord g ''RGN_NOX'') d = 0)"
      and from_aligned: "\<forall>g. (\<forall>d. fdata g d = 0) \<longrightarrow>
           (\<forall>i j k. xstart mesh \<le> i \<and> i \<le> xend mesh \<and> ystart mesh \<le> j \<and> j \<le> yend mesh
                     \<and> 0 \<le> k \<and> k < LocalNz mesh \<longrightarrow>
                     fdata (fromFieldAligned coord g ''RGN_NOBNDRY'') (i, j, k) = 0)"
  shows "\<exists>r. Div_par_fvv cellboundary mesh coord f_in v_in wave_speed_in fixflux = Inr r
          \<and> (\<forall>i j k. xstart mesh \<le> i \<and> i \<le> xend mesh \<and> ystart mesh \<le> j \<and> j \<le> yend mesh
                     \<and> 0 \<le> k \<and> k < LocalNz mesh \<longrightarrow> fdata r (i, j, k) = 0)"
proof -
  let ?f = "toFieldAligned coord f_in ''RGN_NOX''"
  let ?v = "toFieldAligned coord v_in ''RGN_NOX''"
  let ?w = "toFieldAligned coord wave_speed_in ''RGN_NOX''"
  let ?res = "(zeroFrom ?f)\<lparr>fdata :=
     accumulate_fluxes cellboundary mesh coord ?f ?v ?w fixflux (fdata (zeroFrom ?f))\<rparr>"
  have va: "\<forall>d. fdata ?v d = 0"
    using to_aligned v0 by blast
  have acc: "accumulate_fluxes cellboundary mesh coord ?f ?v ?w fixflux (fdata (zeroFrom ?f))
               = fdata (zeroFrom ?f)"
    by (rule accumulate_no_flux)
       (rule zero_velocity_no_flux[where cellboundary = cellboundary, OF va faces])+
  have "\<forall>d. fdata ?res d = 0"
    unfolding acc by (simp add: zeroFrom_def)
  with from_aligned have
    "\<forall>i j k. xstart mesh \<le> i \<and> i \<le> xend mesh \<and> ystart mesh \<le> j \<and> j \<le> yend mesh
         \<and> 0 \<le> k \<and> k < LocalNz mesh \<longrightarrow>
         fdata (fromFieldAligned coord ?res ''RGN_NOBNDRY'') (i, j, k) = 0"
    by blast
  then show ?thesis
    unfolding Div_par_fvv_compatible[OF compat] by blast
qed

text \<open>
  On the small mesh with the default reconstruction: \<open>f = 3\<close>, \<open>v = 0\<close> and wave
  speed \<open>2\<close>.
\<close>

lemma MC_zero:
  "MC \<lparr>st_c = 0, st_m = 0, st_p = 0, st_L = 0, st_R = 0\<rparr>
     = \<lparr>st_c = 0, st_m = 0, st_p = 0, st_L = 0, st_R = 0\<rparr>"
  by (simp add: MC_def minmod_def)

theorem Div_par_fvv_zero_velocity_witness:
  "\<exists>r. Div_par_fvv MC example_mesh example_coord (uniform_field 0 3) (uniform_field 0 0)
          (uniform_field 0 2) False = Inr r
      \<and> fdata r (2, 2, 0) = 0 \<and> fdata r (3, 4, 1) = 0"
proof -
  have c: "areFieldsCompatible (uniform_field 0 3) (uniform_field 0 0)"
      "areFieldsCompatible (uniform_field 0 3) (uniform_field 0 2)"
    by (simp_all add: areFieldsCompatible_def uniform_field_def)
  have v0: "\<forall>d. fdata (uniform_field 0 0) d = 0"
    by (simp add: uniform_field_def)
  have f: "st_R (MC \<lparr>st_c = 0, st_m = 0, st_p = 0, st_L = 0, st_R = 0\<rparr>) = 0"
      "st_L (MC \<lparr>st_c = 0, st_m = 0, st_p = 0, st_L = 0, st_R = 0\<rparr>) = 0"
    by (simp_all add: MC_zero)
  have t: "\<forall>g. (\<forall>d. fdata g d = 0) \<longrightarrow>
             (\<forall>d. fdata (toFieldAligned example_coord g ''RGN_NOX'') d = 0)"
    by (simp add: example_coord_def)
  have fr: "\<forall>g. (\<forall>d. fdata g d = 0) \<longrightarrow>
           (\<forall>i j k. xstart example_mesh \<le> i \<and> i \<le> xend example_mesh
                     \<and> ystart example_mesh \<le> j \<and> j \<le> yend example_mesh
                     \<and> 0 \<le> k \<and> k < LocalNz example_mesh \<longrightarrow>
                     fdata (fromFieldAligned example_coord g ''RGN_NOBNDRY'') (i, j, k) = 0)"
    by (simp add: example_coord_def)
  from Div_par_fvv_zero_velocity[where cellboundary = MC and fixflux = False, OF c v0 f t fr]
  obtain r where r: "Div_par_fvv MC example_mesh example_coord (uniform_field 0 3)
          (uniform_field 0 0) (uniform_field 0 2) False = Inr r"
     and z: "\<forall>i j k. xstart example_mesh \<le> i \<and> i \<le> xend example_mesh
                     \<and> ystart example_mesh \<le> j \<and> j \<le> yend example_mesh
                     \<and> 0 \<le> k \<and> k < LocalNz example_mesh \<longrightarrow> fdata r (i, j, k) = 0"
    by blast
  have "fdata r (2, 2, 0) = 0" "fdata r (3, 4, 1) = 0"
    using z by (simp_all add: example_mesh_def)
  with r show ?thesis by blast
qed

section \<open>Volume conservation\<close>

lemma cell_update_delta:
  "cell_update cellboundary mesh coord f v wave_speed fixflux i j k result =
     (\<lambda>x. result x + cell_delta cellboundary mesh coord f v wave_speed fixflux i j k x)"
  by (rule ext) (simp add: cell_update_def cell_delta_def Let_def)

lemma fold_pointwise_add:
  fixes d :: "'a \<Rightarrow> 'b \<Rightarrow> real"
  shows "fold (\<lambda>a r x. r x + d a x) as r = (\<lambda>x. r x + (\<Sum>a\<leftarrow>as. d a x))"
  by (induction as arbitrary: r) (simp_all add: add.assoc)

lemma fold_pointwise_add_fun:
  fixes d :: "'a \<Rightarrow> 'b \<Rightarrow> real"
  shows "fold (\<lambda>a r x. r x + d a x) as = (\<lambda>r x. r x + (\<Sum>a\<leftarrow>as. d a x))"
  by (rule ext) (rule fold_pointwise_add)

lemma accumulate_fluxes_sum:
  "accumulate_fluxes cellboundary mesh coord f v wave_speed fixflux result =
     (\<lambda>x. result x +
        (\<Sum>i\<leftarrow>[xstart mesh .. xend mesh]. \<Sum>j\<leftarrow>[ys_of mesh i .. ye_of mesh i].
           \<Sum>k\<leftarrow>[0 .. LocalNz mesh - 1].
             cell_delta cellboundary mesh coord f v wave_speed fixflux i j k x))"
proof -
  have cu: "cell_update cellboundary mesh coord f v wave_speed fixflux i j =
             (\<lambda>k r x. r x + cell_delta cellboundary mesh coord f v wave_speed fixflux i j k x)"
    for i j
    by (intro ext) (simp add: cell_update_delta)
  show ?thesis
    unfolding accumulate_fluxes_def cu fold_pointwise_add_fun ..
qed

lemma sum_list_upto_delta:
  fixes g :: "int \<Rightarrow> real"
  shows "(\<Sum>x\<leftarrow>[a .. b]. if x = x0 then g x else 0) = (if a \<le> x0 \<and> x0 \<le> b then g x0 else 0)"
proof -
  have "(\<Sum>x\<leftarrow>[a .. b]. if x = x0 then g x else 0) = (\<Sum>x\<in>{a .. b}. if x = x0 then g x else 0)"
    by (simp add: sum_list_distinct_conv_sum_set)
  also have "\<dots> = (if x0 \<in> {a .. b} then g x0 else 0)"
    by (rule sum.delta) simp
  finally show ?thesis by simp
qed

lemma cell_delta_other_column:
  "i \<noteq> i0 \<or> k \<noteq> k0 \<Longrightarrow>
     cell_delta cellboundary mesh coord f v wave_speed fixflux i j k (i0, j0, k0) = 0"
  by (auto simp add: cell_delta_def)

lemma accumulate_fluxes_cell:
  assumes i0: "xstart mesh \<le> i0" "i0 \<le> xend mesh"
      and k0: "0 \<le> k0" "k0 < LocalNz mesh"
  shows "accumulate_fluxes cellboundary mesh coord f v wave_speed fixflux (\<lambda>d. 0) (i0, j0, k0) =
     (\<Sum>j\<leftarrow>[ys_of mesh i0 .. ye_of mesh i0].
        cell_delta cellboundary mesh coord f v wave_speed fixflux i0 j k0 (i0, j0, k0))"
proof -
  let ?cd = "cell_delta cellboundary mesh coord f v wave_speed fixflux"
  have ksum: "(\<Sum>k\<leftarrow>[0 .. LocalNz mesh - 1]. ?cd i j k (i0, j0, k0)) =
                (if i = i0 then ?cd i0 j k0 (i0, j0, k0) else 0)" for i j
  proof -
    have "(\<Sum>k\<leftarrow>[0 .. LocalNz mesh - 1]. ?cd i j k (i0, j0, k0)) =
          (\<Sum>k\<leftarrow>[0 .. LocalNz mesh - 1]. if k = k0 then ?cd i j k (i0, j0, k0) else 0)"
      by (rule arg_cong[where f = sum_list], rule map_cong) (simp_all add: cell_delta_other_column)
    also have "\<dots> = ?cd i j k0 (i0, j0, k0)"
      using k0 by (simp add: sum_list_upto_delta)
    also have "\<dots> = (if i = i0 then ?cd i0 j k0 (i0, j0, k0) else 0)"
      by (simp add: cell_delta_other_column)
    finally show ?thesis .
  qed
  have jsum: "(\<Sum>j\<leftarrow>[ys_of mesh i .. ye_of mesh i]. \<Sum>k\<leftarrow>[0 .. LocalNz mesh - 1]. ?cd i j k (i0, j0, k0)) =
                (if i = i0 then (\<Sum>j\<leftarrow>[ys_of mesh i .. ye_of mesh i]. ?cd i j k0 (i0, j0, k0)) else 0)" for i
    unfolding ksum by simp
  show ?thesis
    unfolding accumulate_fluxes_sum jsum using i0 by (simp add: sum_list_upto_delta)
qed


lemma face_factor_identities:
  assumes "J coord (i, j) * dy coord (i, j) \<noteq> 0"
  shows "x * flux_factor_rc coord i j * (J coord (i, j) * dy coord (i, j)) = x * common_factor_r coord i j"
    and "x * flux_factor_lc coord i j * (J coord (i, j) * dy coord (i, j)) = x * common_factor_l coord i j"
    and "x * flux_factor_rp coord i (j - 1) * (J coord (i, j) * dy coord (i, j))
           = x * common_factor_r coord i (j - 1)"
    and "x * flux_factor_lm coord i (j + 1) * (J coord (i, j) * dy coord (i, j))
           = x * common_factor_l coord i (j + 1)"
  using assms
  by (simp_all add: flux_factor_rc_def flux_factor_lc_def flux_factor_rp_def flux_factor_lm_def)

lemma common_factor_shared_face:
  "common_factor_l coord i (j + 1) = common_factor_r coord i j"
  by (simp add: common_factor_l_def common_factor_r_def add.commute)

lemma weighted_cell_delta_sum:
  fixes w :: "int \<Rightarrow> real"
  assumes fin: "finite I"
  shows "(\<Sum>j0\<in>I. w j0 * cell_delta cellboundary mesh coord f v wave_speed fixflux i j k (i, j0, k)) =
     (if j \<in> I
      then w j * (flux_right cellboundary mesh f v wave_speed fixflux i j k * flux_factor_rc coord i j
                  - flux_left cellboundary mesh f v wave_speed fixflux i j k * flux_factor_lc coord i j)
      else 0)
     + (if j + 1 \<in> I
        then w (j + 1) * - (flux_right cellboundary mesh f v wave_speed fixflux i j k * flux_factor_rp coord i j)
        else 0)
     + (if j - 1 \<in> I
        then w (j - 1) * (flux_left cellboundary mesh f v wave_speed fixflux i j k * flux_factor_lm coord i j)
        else 0)"
proof -
  let ?A = "flux_right cellboundary mesh f v wave_speed fixflux i j k * flux_factor_rc coord i j
            - flux_left cellboundary mesh f v wave_speed fixflux i j k * flux_factor_lc coord i j"
  let ?B = "- (flux_right cellboundary mesh f v wave_speed fixflux i j k * flux_factor_rp coord i j)"
  let ?C = "flux_left cellboundary mesh f v wave_speed fixflux i j k * flux_factor_lm coord i j"
  have "(\<Sum>j0\<in>I. w j0 * cell_delta cellboundary mesh coord f v wave_speed fixflux i j k (i, j0, k)) =
        (\<Sum>j0\<in>I. (if j0 = j then w j0 * ?A else 0) + (if j0 = j + 1 then w j0 * ?B else 0)
                   + (if j0 = j - 1 then w j0 * ?C else 0))"
    by (rule sum.cong) (simp_all add: cell_delta_def distrib_left)
  also have "\<dots> = (\<Sum>j0\<in>I. if j0 = j then w j0 * ?A else 0)
                  + (\<Sum>j0\<in>I. if j0 = j + 1 then w j0 * ?B else 0)
                  + (\<Sum>j0\<in>I. if j0 = j - 1 then w j0 * ?C else 0)"
    by (simp add: sum.distrib)
  also have "\<dots> = (if j \<in> I then w j * ?A else 0) + (if j + 1 \<in> I then w (j + 1) * ?B else 0)
                  + (if j - 1 \<in> I then w (j - 1) * ?C else 0)"
    by (simp only: sum.delta[OF fin])
  finally show ?thesis .
qed


lemma volume_times_factor:
  assumes "J coord (i, j) * dy coord (i, j) \<noteq> 0"
  shows "J coord (i, j) * dy coord (i, j) * (x * flux_factor_rc coord i j) = x * common_factor_r coord i j"
    and "J coord (i, j) * dy coord (i, j) * (x * flux_factor_lc coord i j) = x * common_factor_l coord i j"
  using assms by (simp_all add: flux_factor_rc_def flux_factor_lc_def)

lemma volume_times_factor_rp:
  assumes "J coord (i, j + 1) * dy coord (i, j + 1) \<noteq> 0"
  shows "J coord (i, j + 1) * dy coord (i, j + 1) * (x * flux_factor_rp coord i j)
           = x * common_factor_r coord i j"
  using assms by (simp add: flux_factor_rp_def)

lemma volume_times_factor_lm:
  assumes "J coord (i, j - 1) * dy coord (i, j - 1) \<noteq> 0"
  shows "J coord (i, j - 1) * dy coord (i, j - 1) * (x * flux_factor_lm coord i j)
           = x * common_factor_l coord i j"
  using assms by (simp add: flux_factor_lm_def)

lemma telescoped_faces:
  fixes FRc FLc :: "int \<Rightarrow> real"
  assumes "a \<le> b"
  shows "(if j \<in> {a .. b} then FRc j - FLc j else 0) + (if j + 1 \<in> {a .. b} then - FRc j else 0)
         + (if j - 1 \<in> {a .. b} then FLc j else 0)
       = (if j = b then FRc j else 0) - (if j = a - 1 then FRc j else 0)
         + (if j = b + 1 then FLc j else 0) - (if j = a then FLc j else 0)"
  using assms by auto

lemma weighted_sum_telescopes:
  assumes i0: "xstart mesh \<le> i" "i \<le> xend mesh"
      and k0: "0 \<le> k" "k < LocalNz mesh"
      and yr: "ystart mesh \<le> yend mesh"
      and vol: "\<forall>j. ystart mesh \<le> j \<and> j \<le> yend mesh \<longrightarrow> J coord (i, j) * dy coord (i, j) \<noteq> 0"
  shows "(\<Sum>j = ystart mesh .. yend mesh. J coord (i, j) * dy coord (i, j) *
            accumulate_fluxes cellboundary mesh coord f v wave_speed fixflux (\<lambda>d. 0) (i, j, k)) =
     flux_right cellboundary mesh f v wave_speed fixflux i (yend mesh) k
       * common_factor_r coord i (yend mesh)
     + (if lastY mesh i \<and> \<not> periodicY mesh i then 0
        else flux_left cellboundary mesh f v wave_speed fixflux i (yend mesh + 1) k
               * common_factor_l coord i (yend mesh + 1))
     - flux_left cellboundary mesh f v wave_speed fixflux i (ystart mesh) k
         * common_factor_l coord i (ystart mesh)
     - (if firstY mesh i \<and> \<not> periodicY mesh i then 0
        else flux_right cellboundary mesh f v wave_speed fixflux i (ystart mesh - 1) k
               * common_factor_r coord i (ystart mesh - 1))"
proof -
  let ?I = "{ystart mesh .. yend mesh}"
  let ?R = "{ys_of mesh i .. ye_of mesh i}"
  let ?w = "\<lambda>j. J coord (i, j) * dy coord (i, j)"
  let ?cd = "cell_delta cellboundary mesh coord f v wave_speed fixflux"
  let ?FR = "\<lambda>j. flux_right cellboundary mesh f v wave_speed fixflux i j k"
  let ?FL = "\<lambda>j. flux_left cellboundary mesh f v wave_speed fixflux i j k"
  let ?FRc = "\<lambda>j. ?FR j * common_factor_r coord i j"
  let ?FLc = "\<lambda>j. ?FL j * common_factor_l coord i j"
  have volI: "?w j \<noteq> 0" if "j \<in> ?I" for j
    using vol that by simp
  have "(\<Sum>j0\<in>?I. ?w j0 * accumulate_fluxes cellboundary mesh coord f v wave_speed fixflux
                               (\<lambda>d. 0) (i, j0, k))
        = (\<Sum>j0\<in>?I. \<Sum>j\<in>?R. ?w j0 * ?cd i j k (i, j0, k))"
    by (simp add: accumulate_fluxes_cell[OF i0 k0] sum_list_distinct_conv_sum_set sum_distrib_left)
  also have "\<dots> = (\<Sum>j\<in>?R. \<Sum>j0\<in>?I. ?w j0 * ?cd i j k (i, j0, k))"
    by (rule sum.swap)
  also have "\<dots> = (\<Sum>j\<in>?R. (if j \<in> ?I then ?FRc j - ?FLc j else 0)
                          + (if j + 1 \<in> ?I then - ?FRc j else 0)
                          + (if j - 1 \<in> ?I then ?FLc j else 0))"
  proof (rule sum.cong[OF refl])
    fix j
    have a: "?w j * (?FR j * flux_factor_rc coord i j - ?FL j * flux_factor_lc coord i j)
               = ?FRc j - ?FLc j" if "j \<in> ?I"
      unfolding right_diff_distrib volume_times_factor[OF volI[OF that]] ..
    have b: "?w (j + 1) * - (?FR j * flux_factor_rp coord i j) = - ?FRc j" if "j + 1 \<in> ?I"
      unfolding mult_minus_right volume_times_factor_rp[OF volI[OF that]] ..
    have c: "?w (j - 1) * (?FL j * flux_factor_lm coord i j) = ?FLc j" if "j - 1 \<in> ?I"
      unfolding volume_times_factor_lm[OF volI[OF that]] ..
    show "(\<Sum>j0\<in>?I. ?w j0 * ?cd i j k (i, j0, k))
          = (if j \<in> ?I then ?FRc j - ?FLc j else 0) + (if j + 1 \<in> ?I then - ?FRc j else 0)
            + (if j - 1 \<in> ?I then ?FLc j else 0)"
      unfolding weighted_cell_delta_sum[OF finite_atLeastAtMost_int]
      by (intro arg_cong2[where f = "(+)"] if_cong[OF refl] refl a b c)
  qed
  also have "\<dots> = (\<Sum>j\<in>?R. (if j = yend mesh then ?FRc j else 0)
                          - (if j = ystart mesh - 1 then ?FRc j else 0)
                          + (if j = yend mesh + 1 then ?FLc j else 0)
                          - (if j = ystart mesh then ?FLc j else 0))"
    by (rule sum.cong[OF refl]) (rule telescoped_faces[OF yr])
  also have "\<dots> = (if yend mesh \<in> ?R then ?FRc (yend mesh) else 0)
                  - (if ystart mesh - 1 \<in> ?R then ?FRc (ystart mesh - 1) else 0)
                  + (if yend mesh + 1 \<in> ?R then ?FLc (yend mesh + 1) else 0)
                  - (if ystart mesh \<in> ?R then ?FLc (ystart mesh) else 0)"
    by (simp only: sum.distrib sum_subtractf sum.delta[OF finite_atLeastAtMost_int])
  also have "\<dots> = ?FRc (yend mesh)
                  + (if lastY mesh i \<and> \<not> periodicY mesh i then 0 else ?FLc (yend mesh + 1))
                  - ?FLc (ystart mesh)
                  - (if firstY mesh i \<and> \<not> periodicY mesh i then 0 else ?FRc (ystart mesh - 1))"
    using yr by (auto simp add: ys_of_def ye_of_def)
  finally show ?thesis .
qed


text \<open>
  Claim C7. Along a field line \<open>(i, k)\<close> of the interior, with non-zero cell volumes
  \<open>J * dy\<close>: what the flux through a right face adds to its cell, times the volume of
  that cell, and what it takes from the upper neighbour, times the volume of the
  neighbour, are both the flux times the common factor of the face; likewise for a
  left face and the lower neighbour; and the left face of cell \<open>j + 1\<close> has the
  common factor of the right face of cell \<open>j\<close>. Hence the volume-weighted sum of the
  accumulated result over the interior cells of the line telescopes to the fluxes
  through its two end faces: at an end that is a physical boundary this is the
  boundary flux alone; at an end that continues into a guard cell (a periodic line or
  a neighbouring sub-domain) it is the pair of fluxes through the face shared with the
  guard cell.
\<close>

theorem Div_par_fvv_volume_conservation:
  assumes "xstart mesh \<le> i" and "i \<le> xend mesh"
      and "0 \<le> k" and "k < LocalNz mesh"
      and "ystart mesh \<le> yend mesh"
      and vol: "\<forall>j. ystart mesh - 1 \<le> j \<and> j \<le> yend mesh + 1 \<longrightarrow>
                  J coord (i, j) * dy coord (i, j) \<noteq> 0"
  shows
    "(\<forall>j. ystart mesh - 1 \<le> j \<and> j \<le> yend mesh \<longrightarrow>
        flux_right cellboundary mesh f v wave_speed fixflux i j k * flux_factor_rc coord i j
          * (J coord (i, j) * dy coord (i, j))
        = flux_right cellboundary mesh f v wave_speed fixflux i j k * common_factor_r coord i j
      \<and> flux_right cellboundary mesh f v wave_speed fixflux i j k * flux_factor_rp coord i j
          * (J coord (i, j + 1) * dy coord (i, j + 1))
        = flux_right cellboundary mesh f v wave_speed fixflux i j k * common_factor_r coord i j)
     \<and> (\<forall>j. ystart mesh \<le> j \<and> j \<le> yend mesh + 1 \<longrightarrow>
        flux_left cellboundary mesh f v wave_speed fixflux i j k * flux_factor_lc coord i j
          * (J coord (i, j) * dy coord (i, j))
        = flux_left cellboundary mesh f v wave_speed fixflux i j k * common_factor_l coord i j
      \<and> flux_left cellboundary mesh f v wave_speed fixflux i j k * flux_factor_lm coord i j
          * (J coord (i, j - 1) * dy coord (i, j - 1))
        = flux_left cellboundary mesh f v wave_speed fixflux i j k * common_factor_l coord i j)
     \<and> (\<forall>j. common_factor_l coord i (j + 1) = common_factor_r coord i j)
     \<and> (\<Sum>j = ystart mesh .. yend mesh. J coord (i, j) * dy coord (i, j) *
            accumulate_fluxes cellboundary mesh coord f v wave_speed fixflux (\<lambda>d. 0) (i, j, k)) =
         flux_right cellboundary mesh f v wave_speed fixflux i (yend mesh) k
           * common_factor_r coord i (yend mesh)
         + (if lastY mesh i \<and> \<not> periodicY mesh i then 0
            else flux_left cellboundary mesh f v wave_speed fixflux i (yend mesh + 1) k
                   * common_factor_l coord i (yend mesh + 1))
         - flux_left cellboundary mesh f v wave_speed fixflux i (ystart mesh) k
             * common_factor_l coord i (ystart mesh)
         - (if firstY mesh i \<and> \<not> periodicY mesh i then 0
            else flux_right cellboundary mesh f v wave_speed fixflux i (ystart mesh - 1) k
                   * common_factor_r coord i (ystart mesh - 1))"
proof (intro conjI allI impI)
  fix j
  assume j: "ystart mesh - 1 \<le> j \<and> j \<le> yend mesh"
  from vol j have "J coord (i, j) * dy coord (i, j) \<noteq> 0" by simp
  then show "flux_right cellboundary mesh f v wave_speed fixflux i j k * flux_factor_rc coord i j
          * (J coord (i, j) * dy coord (i, j))
        = flux_right cellboundary mesh f v wave_speed fixflux i j k * common_factor_r coord i j"
    by (rule face_factor_identities)
  from vol j have "J coord (i, j + 1) * dy coord (i, j + 1) \<noteq> 0" by simp
  from face_factor_identities(3)[OF this]
  show "flux_right cellboundary mesh f v wave_speed fixflux i j k * flux_factor_rp coord i j
          * (J coord (i, j + 1) * dy coord (i, j + 1))
        = flux_right cellboundary mesh f v wave_speed fixflux i j k * common_factor_r coord i j"
    by simp
next
  fix j
  assume j: "ystart mesh \<le> j \<and> j \<le> yend mesh + 1"
  from vol j have "J coord (i, j) * dy coord (i, j) \<noteq> 0" by simp
  then show "flux_left cellboundary mesh f v wave_speed fixflux i j k * flux_factor_lc coord i j
          * (J coord (i, j) * dy coord (i, j))
        = flux_left cellboundary mesh f v wave_speed fixflux i j k * common_factor_l coord i j"
    by (rule face_factor_identities)
  from vol j have "J coord (i, j - 1) * dy coord (i, j - 1) \<noteq> 0" by simp
  from face_factor_identities(4)[OF this]
  show "flux_left cellboundary mesh f v wave_speed fixflux i j k * flux_factor_lm coord i j
          * (J coord (i, j - 1) * dy coord (i, j - 1))
        = flux_left cellboundary mesh f v wave_speed fixflux i j k * common_factor_l coord i j"
    by simp
next
  fix j
  show "common_factor_l coord i (j + 1) = common_factor_r coord i j"
    by (rule common_factor_shared_face)
next
  from vol have "\<forall>j. ystart mesh \<le> j \<and> j \<le> yend mesh \<longrightarrow> J coord (i, j) * dy coord (i, j) \<noteq> 0"
    by simp
  from weighted_sum_telescopes[OF assms(1-5) this]
  show "(\<Sum>j = ystart mesh .. yend mesh. J coord (i, j) * dy coord (i, j) *
            accumulate_fluxes cellboundary mesh coord f v wave_speed fixflux (\<lambda>d. 0) (i, j, k)) =
         flux_right cellboundary mesh f v wave_speed fixflux i (yend mesh) k
           * common_factor_r coord i (yend mesh)
         + (if lastY mesh i \<and> \<not> periodicY mesh i then 0
            else flux_left cellboundary mesh f v wave_speed fixflux i (yend mesh + 1) k
                   * common_factor_l coord i (yend mesh + 1))
         - flux_left cellboundary mesh f v wave_speed fixflux i (ystart mesh) k
             * common_factor_l coord i (ystart mesh)
         - (if firstY mesh i \<and> \<not> periodicY mesh i then 0
            else flux_right cellboundary mesh f v wave_speed fixflux i (ystart mesh - 1) k
                   * common_factor_r coord i (ystart mesh - 1))" .
qed

text \<open>
  On the small mesh, whose field lines end in physical boundaries and whose cell
  volumes are \<open>1\<close>: with \<open>f\<close> growing along \<open>y\<close>, \<open>v = 3\<close> and fixed boundary
  fluxes, the sum over the three interior cells is the flux \<open>4.5 * 3 * 3\<close> through
  the upper boundary minus the flux \<open>1.5 * 3 * 3\<close> through the lower one.
\<close>

lemma MC_ramp:
  "MC (stencil ramp_field i j k) =
     \<lparr>st_c = of_int j, st_m = of_int j - 1, st_p = of_int j + 1,
      st_L = of_int j - 1 / 2, st_R = of_int j + 1 / 2\<rparr>"
  by (simp add: MC_def stencil_def ramp_field_def minmod_def)

theorem Div_par_fvv_volume_conservation_witness:
  "(\<Sum>j = 2 .. 4. accumulate_fluxes MC example_mesh example_coord ramp_field (uniform_field 0 3)
        (uniform_field 0 1) True (\<lambda>d. 0) (2, j, 0)) = 27"
proof -
  have h: "xstart example_mesh \<le> 2" "2 \<le> xend example_mesh" "(0::int) \<le> 0"
      "0 < LocalNz example_mesh" "ystart example_mesh \<le> yend example_mesh"
    by (simp_all add: example_mesh_def)
  have vol: "\<forall>j. ystart example_mesh - 1 \<le> j \<and> j \<le> yend example_mesh + 1 \<longrightarrow>
                  J example_coord (2, j) * dy example_coord (2, j) \<noteq> 0"
    by (simp add: example_coord_def)
  have bl: "lastY example_mesh 2 \<and> \<not> periodicY example_mesh 2"
    "firstY example_mesh 2 \<and> \<not> periodicY example_mesh 2"
    by (simp_all add: example_mesh_def)
  have y: "ystart example_mesh = 2" "yend example_mesh = 4"
    by (simp_all add: example_mesh_def)
  have c: "J example_coord = (\<lambda>x. 1)" "dy example_coord = (\<lambda>x. 1)" "g_22 example_coord = (\<lambda>x. 1)"
    by (simp_all add: example_coord_def)
  have cf: "common_factor_r example_coord 2 4 = 1" "common_factor_l example_coord 2 2 = 1"
    by (simp_all add: common_factor_r_def common_factor_l_def c)
  have fr: "flux_right MC example_mesh ramp_field (uniform_field 0 3) (uniform_field 0 1) True 2 4 0
              = 81 / 2"
    using bl y
    by (simp add: flux_right_def Let_def MC_ramp MC_uniform uniform_field_def)
  have fl: "flux_left MC example_mesh ramp_field (uniform_field 0 3) (uniform_field 0 1) True 2 2 0
              = 27 / 2"
    using bl y
    by (simp add: flux_left_def Let_def MC_ramp MC_uniform uniform_field_def)
  from Div_par_fvv_volume_conservation[OF h vol, where cellboundary = MC and f = ramp_field
         and v = "uniform_field 0 3" and wave_speed = "uniform_field 0 1" and fixflux = True]
  have "(\<Sum>j = ystart example_mesh .. yend example_mesh.
           J example_coord (2, j) * dy example_coord (2, j) *
           accumulate_fluxes MC example_mesh example_coord ramp_field (uniform_field 0 3)
             (uniform_field 0 1) True (\<lambda>d. 0) (2, j, 0)) =
         flux_right MC example_mesh ramp_field (uniform_field 0 3) (uniform_field 0 1) True 2
             (yend example_mesh) 0 * common_factor_r example_coord 2 (yend example_mesh)
         + (if lastY example_mesh 2 \<and> \<not> periodicY example_mesh 2 then 0
            else flux_left MC example_mesh ramp_field (uniform_field 0 3) (uniform_field 0 1) True 2
                   (yend example_mesh + 1) 0 * common_factor_l example_coord 2 (yend example_mesh + 1))
         - flux_left MC example_mesh ramp_field (uniform_field 0 3) (uniform_field 0 1) True 2
             (ystart example_mesh) 0 * common_factor_l example_coord 2 (ystart example_mesh)
         - (if firstY example_mesh 2 \<and> \<not> periodicY example_mesh 2 then 0
            else flux_right MC example_mesh ramp_field (uniform_field 0 3) (uniform_field 0 1) True 2
                   (ystart example_mesh - 1) 0 * common_factor_r example_coord 2 (ystart example_mesh - 1))"
    by blast
  then show ?thesis
    unfolding if_P[OF bl(1)] if_P[OF bl(2)] y cf fr fl by (simp add: c)
qed

end
